theory Spec2Isabelle
  imports Complex_Main
begin

section \<open>Numbers, exceptions and Python values\<close>

text \<open>
  The engine computes on Python floats and on numpy arrays of floats. A finite float is
  modelled by a \<open>real\<close> and arithmetic is exact: rounding, signed zeros and overflow are
  outside the model. What the source does beyond arithmetic is kept:
  \<^item> a division of Python floats by zero raises \<open>ZeroDivisionError\<close> (\<open>py_div\<close>);
  \<^item> numpy never raises on arithmetic: a division by zero gives an infinity or
    \<open>nan\<close>, the mean of an empty array is \<open>nan\<close>, and every comparison with
    \<open>nan\<close> is false (\<open>npfloat\<close>);
  \<^item> a missing dictionary key raises \<open>KeyError\<close>, an index into an empty array
    raises \<open>IndexError\<close>.
  The source defines no exception class of its own; \<open>Custom\<close> stands for an
  application-defined exception class, by name, and no function below produces one.
\<close>

datatype exn =
  KeyError string | IndexError | ZeroDivisionError | TypeError | AttributeError | ValueError
  | Custom string

definition and_then :: "exn + 'a \<Rightarrow> ('a \<Rightarrow> exn + 'b) \<Rightarrow> exn + 'b" where
  "and_then m f = (case m of Inl e \<Rightarrow> Inl e | Inr x \<Rightarrow> f x)"

definition py_div :: "real \<Rightarrow> real \<Rightarrow> exn + real" where
  "py_div a b = (if b = 0 then Inl ZeroDivisionError else Inr (a / b))"

datatype npfloat = Fin real | PInf | NInf | NaN

fun np_neg :: "npfloat \<Rightarrow> npfloat" where
  "np_neg (Fin a) = Fin (- a)"
| "np_neg PInf = NInf"
| "np_neg NInf = PInf"
| "np_neg NaN = NaN"

fun np_add :: "npfloat \<Rightarrow> npfloat \<Rightarrow> npfloat" where
  "np_add (Fin a) (Fin b) = Fin (a + b)"
| "np_add NaN _ = NaN"
| "np_add _ NaN = NaN"
| "np_add PInf NInf = NaN"
| "np_add NInf PInf = NaN"
| "np_add PInf _ = PInf"
| "np_add _ PInf = PInf"
| "np_add NInf _ = NInf"
| "np_add _ NInf = NInf"

definition np_sub :: "npfloat \<Rightarrow> npfloat \<Rightarrow> npfloat" where
  "np_sub a b = np_add a (np_neg b)"

fun np_divide :: "npfloat \<Rightarrow> npfloat \<Rightarrow> npfloat" where
  "np_divide (Fin a) (Fin b) =
     (if b \<noteq> 0 then Fin (a / b)
      else if a = 0 then NaN else if 0 < a then PInf else NInf)"
| "np_divide NaN _ = NaN"
| "np_divide _ NaN = NaN"
| "np_divide (Fin a) _ = Fin 0"
| "np_divide PInf (Fin b) = (if 0 \<le> b then PInf else NInf)"
| "np_divide NInf (Fin b) = (if 0 \<le> b then NInf else PInf)"
| "np_divide _ _ = NaN"

fun np_mul :: "npfloat \<Rightarrow> npfloat \<Rightarrow> npfloat" where
  "np_mul (Fin a) (Fin b) = Fin (a * b)"
| "np_mul NaN _ = NaN"
| "np_mul _ NaN = NaN"
| "np_mul (Fin a) PInf = (if a = 0 then NaN else if 0 < a then PInf else NInf)"
| "np_mul (Fin a) NInf = (if a = 0 then NaN else if 0 < a then NInf else PInf)"
| "np_mul PInf (Fin b) = (if b = 0 then NaN else if 0 < b then PInf else NInf)"
| "np_mul NInf (Fin b) = (if b = 0 then NaN else if 0 < b then NInf else PInf)"
| "np_mul PInf PInf = PInf"
| "np_mul NInf NInf = PInf"
| "np_mul PInf NInf = NInf"
| "np_mul NInf PInf = NInf"

fun np_abs :: "npfloat \<Rightarrow> npfloat" where
  "np_abs (Fin a) = Fin (abs a)"
| "np_abs NaN = NaN"
| "np_abs _ = PInf"

fun np_less :: "npfloat \<Rightarrow> npfloat \<Rightarrow> bool" where
  "np_less (Fin a) (Fin b) = (a < b)"
| "np_less NaN _ = False"
| "np_less _ NaN = False"
| "np_less _ NInf = False"
| "np_less PInf _ = False"
| "np_less _ _ = True"

definition np_greater :: "npfloat \<Rightarrow> npfloat \<Rightarrow> bool" where
  "np_greater a b = np_less b a"

text \<open>\<open>np.mean\<close> and \<open>np.std\<close> (population standard deviation) of a one-dimensional
  array; both are \<open>nan\<close> on an empty array.\<close>

definition mean :: "real list \<Rightarrow> real" where
  "mean xs = sum_list xs / real (length xs)"

definition pstd :: "real list \<Rightarrow> real" where
  "pstd xs = sqrt (sum_list (map (\<lambda>x. (x - mean xs)\<^sup>2) xs) / real (length xs))"

definition np_mean :: "real list \<Rightarrow> npfloat" where
  "np_mean xs = (if xs = [] then NaN else Fin (mean xs))"

definition np_std :: "real list \<Rightarrow> npfloat" where
  "np_std xs = (if xs = [] then NaN else Fin (pstd xs))"

text \<open>The same two functions applied to a single numpy scalar: the mean of one value is
  the value, its standard deviation is 0 (and \<open>nan\<close> when the value is not finite).\<close>

fun np_mean_scalar :: "npfloat \<Rightarrow> npfloat" where
  "np_mean_scalar v = v"

fun np_std_scalar :: "npfloat \<Rightarrow> npfloat" where
  "np_std_scalar (Fin a) = Fin 0"
| "np_std_scalar _ = NaN"

text \<open>\<open>np.diff\<close>: consecutive differences. \<open>xs[i:]\<close> for a possibly negative start.\<close>

definition np_diff :: "real list \<Rightarrow> real list" where
  "np_diff xs = map (\<lambda>(a, b). b - a) (zip xs (tl xs))"

definition slice_from :: "int \<Rightarrow> 'a list \<Rightarrow> 'a list" where
  "slice_from i xs = (if i < 0 then drop (length xs - nat (- i)) xs else drop (nat i) xs)"

text \<open>\<open>xs[-1]\<close>.\<close>

definition last_item :: "'a list \<Rightarrow> exn + 'a" where
  "last_item xs = (if xs = [] then Inl IndexError else Inr (last xs))"

text \<open>A dictionary keeps its insertion order: an association list. \<open>d.get(k, default)\<close>.\<close>

definition dict_get :: "(string \<times> 'v) list \<Rightarrow> string \<Rightarrow> 'v \<Rightarrow> 'v" where
  "dict_get d k dflt = (case map_of d k of None \<Rightarrow> dflt | Some v \<Rightarrow> v)"

section \<open>Configuration: \<open>RiskManager.__init__\<close> and \<open>SignalScorer.__init__\<close>\<close>

record risk_manager =
  risk_per_trade :: real
  max_portfolio_risk :: real
  max_correlation :: real
  stop_loss_atr_multiplier :: real

definition RiskManager_init :: "(string \<times> real) list \<Rightarrow> risk_manager" where
  "RiskManager_init settings =
     \<lparr> risk_per_trade = dict_get settings ''risk_per_trade'' 0.02,
       max_portfolio_risk = dict_get settings ''max_portfolio_risk'' 0.06,
       max_correlation = dict_get settings ''max_correlation'' 0.7,
       stop_loss_atr_multiplier = dict_get settings ''stop_loss_atr_multiplier'' 2 \<rparr>"

text \<open>The scorer's transformer is a collaborator; \<open>generate_signal\<close> below takes its
  \<open>forward\<close> as a parameter.\<close>

record signal_scorer =
  scorer_risk_manager :: risk_manager
  confidence_threshold :: real
  min_risk_reward :: real

definition SignalScorer_init :: "real \<Rightarrow> real \<Rightarrow> real \<Rightarrow> signal_scorer" where
  "SignalScorer_init confidence_threshold0 min_risk_reward0 max_portfolio_risk0 =
     \<lparr> scorer_risk_manager = RiskManager_init
         [(''risk_per_trade'', max_portfolio_risk0),
          (''max_portfolio_risk'', max_portfolio_risk0 * 3)],
       confidence_threshold = confidence_threshold0,
       min_risk_reward = min_risk_reward0 \<rparr>"

text \<open>The constructor's default arguments.\<close>

definition SignalScorer_default :: signal_scorer where
  "SignalScorer_default = SignalScorer_init 0.7 2.0 0.02"

section \<open>The signal combiner (\<open>scoring_system.py\<close>)\<close>

text \<open>The dictionary \<open>_combine_signals\<close> returns; \<open>None\<close> is \<open>None\<close>.\<close>

record signal =
  sig_action :: string
  sig_confidence :: real
  sig_target_price :: "real option"
  sig_stop_loss :: "real option"
  sig_risk_reward :: real
  sig_position_size :: real

text \<open>\<open>SignalScorer._calculate_position_size\<close>.\<close>

definition scorer_calculate_position_size ::
  "signal_scorer \<Rightarrow> real \<Rightarrow> real \<Rightarrow> real \<Rightarrow> exn + real" where
  "scorer_calculate_position_size sc price stop_loss risk_score =
     (let risk_amount = 100 * (risk_per_trade (scorer_risk_manager sc) * (risk_score / 100));
          price_risk = abs (price - stop_loss)
      in py_div risk_amount price_risk)"

text \<open>\<open>SignalScorer._combine_signals\<close>, statement by statement: the price change is
  computed first, before the confidence gate.\<close>

definition combine_signals ::
  "signal_scorer \<Rightarrow> real \<Rightarrow> real \<Rightarrow> real \<Rightarrow> real \<Rightarrow> real \<Rightarrow> real \<Rightarrow> exn + signal" where
  "combine_signals sc price predicted_price confidence volatility technical_score risk_score =
     and_then (py_div (predicted_price - price) price) (\<lambda>price_change.
       if confidence < confidence_threshold sc then
         Inr \<lparr> sig_action = ''WAIT'', sig_confidence = confidence,
               sig_target_price = None, sig_stop_loss = None,
               sig_risk_reward = 0, sig_position_size = 0 \<rparr>
       else
         let stop_loss = (if price_change > 0 then price * (1 - volatility)
                          else price * (1 + volatility));
             risk = abs (price - stop_loss);
             target = (if price_change > 0 then price + (risk * min_risk_reward sc)
                       else price - (risk * min_risk_reward sc))
         in and_then (py_div (abs (target - price)) (abs (stop_loss - price))) (\<lambda>risk_reward.
              let final_score = confidence * 0.3 + technical_score * 0.3
                                + (risk_score / 100) * 0.4;
                  action = (if price_change > volatility \<and> final_score > 0.7 then ''BUY''
                            else if price_change < - volatility \<and> final_score > 0.7 then ''SELL''
                            else ''WAIT'')
              in and_then (scorer_calculate_position_size sc price stop_loss risk_score)
                   (\<lambda>position_size.
                      Inr \<lparr> sig_action = action, sig_confidence = final_score,
                            sig_target_price = Some target, sig_stop_loss = Some stop_loss,
                            sig_risk_reward = risk_reward,
                            sig_position_size = position_size \<rparr>)))"

section \<open>The indicator engine (\<open>scoring_system.py\<close>)\<close>

text \<open>\<open>SignalScorer._calculate_rsi\<close>. The window \<open>gain[-period:]\<close> is empty only when
  there are fewer than two prices; its mean is then \<open>nan\<close>, the test \<open>avg_loss == 0\<close>
  is false and the result is \<open>nan\<close>.\<close>

definition calculate_rsi :: "real list \<Rightarrow> int \<Rightarrow> npfloat" where
  "calculate_rsi prices period =
     (let deltas = np_diff prices;
          gain = map (\<lambda>d. if d > 0 then d else 0) deltas;
          loss = map (\<lambda>d. if d < 0 then - d else 0) deltas;
          avg_gain = np_mean (slice_from (- period) gain);
          avg_loss = np_mean (slice_from (- period) loss)
      in if avg_loss = Fin 0 then Fin 100
         else let rs = np_divide avg_gain avg_loss
              in np_sub (Fin 100) (np_divide (Fin 100) (np_add (Fin 1) rs)))"

text \<open>\<open>SignalScorer._calculate_trend_score\<close>.\<close>

definition calculate_trend_score :: "real list \<Rightarrow> exn + real" where
  "calculate_trend_score prices =
     (let sma_20 = np_mean (slice_from (- 20) prices);
          sma_50 = np_mean (slice_from (- 50) prices)
      in and_then (last_item prices) (\<lambda>current_price.
           if np_greater (Fin current_price) sma_20 \<and> np_greater sma_20 sma_50 then Inr 1.0
           else if np_less (Fin current_price) sma_20 \<and> np_less sma_20 sma_50 then Inr 0.0
           else Inr 0.5))"

text \<open>\<open>SignalScorer._calculate_technical_score\<close>.\<close>

definition calculate_technical_score :: "real list \<Rightarrow> real list \<Rightarrow> exn + real" where
  "calculate_technical_score price_data volume_data =
     (let rsi = calculate_rsi price_data 14;
          rsi_score = (if np_less rsi (Fin 30) then 1.0
                       else if np_greater rsi (Fin 70) then 0.0 else 0.5);
          vol_avg = np_mean (slice_from (- 20) volume_data)
      in and_then (last_item volume_data) (\<lambda>vol_current.
           let volume_score =
                 (if np_greater (Fin vol_current) (np_mul vol_avg (Fin 1.5)) then 1.0 else 0.5)
           in and_then (calculate_trend_score price_data) (\<lambda>trend_score.
                Inr (rsi_score * 0.3 + volume_score * 0.3 + trend_score * 0.4))))"

section \<open>The risk manager (\<open>manager.py\<close>)\<close>

text \<open>
  The risk manager's inputs are nested Python dictionaries. A value is a number, an array
  of numbers or a dictionary; \<open>item d k\<close> is \<open>d[k]\<close>. A value of the wrong shape is
  outside the documented interfaces; the model raises \<open>TypeError\<close> (or
  \<open>AttributeError\<close> for a method of \<open>dict\<close>) where it is used.
\<close>

datatype pyval = Num real | Arr "real list" | Dict "(string \<times> pyval) list"

fun item :: "pyval \<Rightarrow> string \<Rightarrow> exn + pyval" where
  "item (Dict d) k = (case map_of d k of None \<Rightarrow> Inl (KeyError k) | Some v \<Rightarrow> Inr v)"
| "item (Arr xs) k = Inl IndexError"
| "item (Num x) k = Inl TypeError"

fun as_num :: "pyval \<Rightarrow> exn + real" where
  "as_num (Num x) = Inr x"
| "as_num _ = Inl TypeError"

fun as_arr :: "pyval \<Rightarrow> exn + real list" where
  "as_arr (Arr xs) = Inr xs"
| "as_arr _ = Inl TypeError"

fun dict_items :: "pyval \<Rightarrow> exn + (string \<times> pyval) list" where
  "dict_items (Dict d) = Inr d"
| "dict_items _ = Inl AttributeError"

subsection \<open>Position sizing and leverage\<close>

record position_sizing =
  ps_position_size :: real
  ps_position_value :: real
  ps_risk_amount :: real
  ps_risk_percent :: real

definition calculate_position_size ::
  "risk_manager \<Rightarrow> real \<Rightarrow> real \<Rightarrow> real \<Rightarrow> exn + position_sizing" where
  "calculate_position_size rm account_balance entry_price stop_loss_price =
     (let max_risk_amount = account_balance * risk_per_trade rm;
          price_risk = abs (entry_price - stop_loss_price)
      in and_then (py_div max_risk_amount price_risk) (\<lambda>position_size.
           let position_value = position_size * entry_price
           in Inr \<lparr> ps_position_size = position_size,
                    ps_position_value = position_value,
                    ps_risk_amount = max_risk_amount,
                    ps_risk_percent = risk_per_trade rm * 100 \<rparr>))"

record leverage =
  lev_max_safe_leverage :: real
  lev_current_leverage :: real
  lev_is_safe :: bool

definition calculate_safe_leverage ::
  "risk_manager \<Rightarrow> real \<Rightarrow> real \<Rightarrow> real \<Rightarrow> exn + leverage" where
  "calculate_safe_leverage rm account_balance position_value volatility =
     and_then (py_div 1.0 volatility) (\<lambda>q.
       let max_safe_leverage = min 3.0 q
       in and_then (py_div position_value account_balance) (\<lambda>current_leverage.
            Inr \<lparr> lev_max_safe_leverage = max_safe_leverage,
                  lev_current_leverage = current_leverage,
                  lev_is_safe = (current_leverage \<le> max_safe_leverage) \<rparr>))"

subsection \<open>Market regime\<close>

record market_regime =
  regime :: string
  risk_multiplier :: real
  regime_volatility :: npfloat
  volume_ratio :: npfloat

text \<open>The two tests of \<open>detect_market_regime\<close>. The first compares the volatility, a
  single numpy scalar, with the mean plus the standard deviation of that scalar.\<close>

definition is_high_volatility :: "npfloat \<Rightarrow> bool" where
  "is_high_volatility volatility =
     np_greater volatility (np_add (np_mean_scalar volatility) (np_std_scalar volatility))"

definition is_high_volume :: "real \<Rightarrow> npfloat \<Rightarrow> bool" where
  "is_high_volume recent_volume avg_volume =
     np_greater (Fin recent_volume) (np_mul avg_volume (Fin 1.5))"

definition detect_market_regime :: "real list \<Rightarrow> real list \<Rightarrow> exn + market_regime" where
  "detect_market_regime price_data volume_data =
     (let volatility = np_std price_data;
          avg_volume = np_mean volume_data
      in and_then (last_item volume_data) (\<lambda>recent_volume.
           let high_volatility = is_high_volatility volatility;
               high_volume = is_high_volume recent_volume avg_volume;
               (regime0, risk_multiplier0) =
                 (if high_volatility \<and> high_volume then (''high_risk'', 0.5)
                  else if high_volatility then (''volatile'', 0.7)
                  else if high_volume then (''high_volume'', 0.8)
                  else (''normal'', 1.0))
           in Inr \<lparr> regime = regime0, risk_multiplier = risk_multiplier0,
                    regime_volatility = volatility,
                    volume_ratio = np_divide (Fin recent_volume) avg_volume \<rparr>))"

subsection \<open>Portfolio heat map\<close>

record heat_map =
  high_risk :: "string list"
  medium_risk :: "string list"
  low_risk :: "string list"

text \<open>\<open>sum(pos['value'] for pos in positions.values())\<close>, from the left, starting at 0.\<close>

fun sum_values :: "(string \<times> pyval) list \<Rightarrow> real \<Rightarrow> exn + real" where
  "sum_values [] acc = Inr acc"
| "sum_values ((symbol, pos) # rest) acc =
     and_then (item pos ''value'') (\<lambda>v. and_then (as_num v) (\<lambda>x.
       sum_values rest (acc + x)))"

text \<open>The loop over \<open>positions.items()\<close>.\<close>

fun heat_map_loop :: "real \<Rightarrow> (string \<times> pyval) list \<Rightarrow> heat_map \<Rightarrow> exn + heat_map" where
  "heat_map_loop total_exposure [] risk_map = Inr risk_map"
| "heat_map_loop total_exposure ((symbol, pos) # rest) risk_map =
     and_then (item pos ''value'') (\<lambda>v. and_then (as_num v) (\<lambda>x.
       and_then (py_div x total_exposure) (\<lambda>risk_ratio.
         heat_map_loop total_exposure rest
           (if risk_ratio > 0.2 then risk_map \<lparr> high_risk := high_risk risk_map @ [symbol] \<rparr>
            else if risk_ratio > 0.1
              then risk_map \<lparr> medium_risk := medium_risk risk_map @ [symbol] \<rparr>
            else risk_map \<lparr> low_risk := low_risk risk_map @ [symbol] \<rparr>))))"

definition generate_portfolio_heat_map :: "pyval \<Rightarrow> exn + heat_map" where
  "generate_portfolio_heat_map positions =
     (let risk_map = \<lparr> high_risk = [], medium_risk = [], low_risk = [] \<rparr>
      in and_then (dict_items positions) (\<lambda>ps.
           and_then (sum_values ps 0) (\<lambda>total_exposure.
             heat_map_loop total_exposure ps risk_map)))"

subsection \<open>Sentiment\<close>

record sentiment_adjustment =
  original_risk :: real
  adjusted_risk :: real
  sentiment_score :: real
  sentiment_multiplier :: real

text \<open>\<open>sentiment_data[k]['score']\<close>, read as a number.\<close>

definition source_score :: "pyval \<Rightarrow> string \<Rightarrow> exn + real" where
  "source_score sentiment_data k =
     and_then (item sentiment_data k) (\<lambda>entry.
       and_then (item entry ''score'') as_num)"

definition adjust_risk_by_sentiment :: "real \<Rightarrow> pyval \<Rightarrow> exn + sentiment_adjustment" where
  "adjust_risk_by_sentiment base_risk sentiment_data =
     and_then (source_score sentiment_data ''news_sentiment'') (\<lambda>news.
     and_then (source_score sentiment_data ''social_sentiment'') (\<lambda>social.
     and_then (source_score sentiment_data ''technical_sentiment'') (\<lambda>technical.
       let weighted_score = news * 0.3 + social * 0.3 + technical * 0.4;
           multiplier = (if weighted_score > 0.8 then 1.2
                         else if weighted_score < 0.2 then 0.6 else 1.0);
           adjusted = base_risk * multiplier
       in Inr \<lparr> original_risk = base_risk, adjusted_risk = adjusted,
                sentiment_score = weighted_score,
                sentiment_multiplier = multiplier \<rparr>)))"

subsection \<open>Correlation\<close>

text \<open>
  \<open>np.corrcoef(a, b)[0,1]\<close> is numpy's: the model takes it as the parameter
  \<open>corrcoef\<close>, which may raise (arrays of different lengths) or give \<open>nan\<close> (a
  constant series).
\<close>

type_synonym corrcoef = "pyval \<Rightarrow> pyval \<Rightarrow> exn + npfloat"

record correlation_risk =
  correlations :: "(string \<times> npfloat) list"
  high_correlation_pairs :: "(string \<times> string \<times> npfloat) list"
  cr_max_correlation :: real

text \<open>\<open>d[k] = v\<close> on an ordered dictionary.\<close>

fun dict_set :: "string \<Rightarrow> 'v \<Rightarrow> (string \<times> 'v) list \<Rightarrow> (string \<times> 'v) list" where
  "dict_set k v [] = [(k, v)]"
| "dict_set k v ((k', v') # d) = (if k = k' then (k, v) # d else (k', v') # dict_set k v d)"

text \<open>The index pairs \<open>i < j\<close> of the two nested loops, in the loops' order.\<close>

fun pairs :: "'a list \<Rightarrow> ('a \<times> 'a) list" where
  "pairs [] = []"
| "pairs (x # xs) = map (Pair x) xs @ pairs xs"

fun correlation_loop ::
  "risk_manager \<Rightarrow> corrcoef \<Rightarrow> pyval \<Rightarrow> (string \<times> string) list \<Rightarrow>
   (string \<times> npfloat) list \<Rightarrow> (string \<times> string \<times> npfloat) list \<Rightarrow>
   exn + (string \<times> npfloat) list \<times> (string \<times> string \<times> npfloat) list" where
  "correlation_loop rm cc asset_returns [] corrs high_corr_pairs = Inr (corrs, high_corr_pairs)"
| "correlation_loop rm cc asset_returns ((asset1, asset2) # rest) corrs high_corr_pairs =
     and_then (item asset_returns asset1) (\<lambda>r1.
     and_then (item asset_returns asset2) (\<lambda>r2.
     and_then (cc r1 r2) (\<lambda>corr.
       correlation_loop rm cc asset_returns rest
         (dict_set (asset1 @ ''-'' @ asset2) corr corrs)
         (if np_greater (np_abs corr) (Fin (max_correlation rm))
          then high_corr_pairs @ [(asset1, asset2, corr)] else high_corr_pairs))))"

definition calculate_correlation_risk ::
  "risk_manager \<Rightarrow> corrcoef \<Rightarrow> pyval \<Rightarrow> exn + correlation_risk" where
  "calculate_correlation_risk rm cc asset_returns =
     and_then (dict_items asset_returns) (\<lambda>d.
       let assets = map fst d
       in and_then (correlation_loop rm cc asset_returns (pairs assets) [] []) (\<lambda>(corrs, high).
            Inr \<lparr> correlations = corrs, high_correlation_pairs = high,
                  cr_max_correlation = max_correlation rm \<rparr>))"

subsection \<open>The risk score\<close>

record risk_score =
  score :: real
  level :: string
  components :: "(string \<times> real) list"

definition regime_scores :: "(string \<times> real) list" where
  "regime_scores = [(''high_risk'', 20), (''volatile'', 40), (''high_volume'', 60), (''normal'', 80)]"

definition score_weights :: "(string \<times> real) list" where
  "score_weights =
     [(''market_regime'', 0.3), (''sentiment'', 0.2), (''concentration'', 0.25),
      (''correlation'', 0.25)]"

text \<open>\<open>sum(score * weights[component] for component, score in scores.items())\<close>.\<close>

fun weighted_sum :: "(string \<times> real) list \<Rightarrow> real \<Rightarrow> exn + real" where
  "weighted_sum [] acc = Inr acc"
| "weighted_sum ((component, s) # rest) acc =
     (case map_of score_weights component of
        None \<Rightarrow> Inl (KeyError component)
      | Some w \<Rightarrow> weighted_sum rest (acc + s * w))"

definition level_of :: "real \<Rightarrow> string" where
  "level_of final_score =
     (if final_score < 40 then ''high'' else if final_score < 70 then ''medium'' else ''low'')"

definition calculate_risk_score ::
  "risk_manager \<Rightarrow> corrcoef \<Rightarrow> pyval \<Rightarrow> pyval \<Rightarrow> pyval \<Rightarrow> exn + risk_score" where
  "calculate_risk_score rm cc market_data sentiment_data portfolio_data =
     and_then (item market_data ''prices'') (\<lambda>pv.
     and_then (item market_data ''volumes'') (\<lambda>vv.
     and_then (as_arr pv) (\<lambda>prices.
     and_then (as_arr vv) (\<lambda>volumes.
     and_then (detect_market_regime prices volumes) (\<lambda>market.
       let market_regime_score = dict_get regime_scores (regime market) 50
       in and_then (adjust_risk_by_sentiment 1.0 sentiment_data) (\<lambda>sentiment.
            let sentiment_component = sentiment_score sentiment * 100
            in and_then (item portfolio_data ''positions'') (\<lambda>positions.
               and_then (generate_portfolio_heat_map positions) (\<lambda>hm.
                 let concentration_risk = real (length (high_risk hm)) * 20;
                     concentration = max 0 (100 - concentration_risk)
                 in and_then (item portfolio_data ''returns'') (\<lambda>returns.
                    and_then (calculate_correlation_risk rm cc returns) (\<lambda>correlation_data.
                      let correlation_risk =
                            real (length (high_correlation_pairs correlation_data)) * 15;
                          correlation = max 0 (100 - correlation_risk);
                          scores = [(''market_regime'', market_regime_score),
                                    (''sentiment'', sentiment_component),
                                    (''concentration'', concentration),
                                    (''correlation'', correlation)]
                      in and_then (weighted_sum scores 0) (\<lambda>final_score.
                           Inr \<lparr> score = final_score, level = level_of final_score,
                                 components = scores \<rparr>)))))))))))"

section \<open>Backtest: claim C6\<close>

record trade =
  trade_date :: string
  trade_risk_score :: risk_score
  trade_position_size :: real
  trade_pnl :: real
  trade_capital :: real

record risk_adjustment =
  adj_date :: string
  adj_original_size :: real
  adj_adjusted_size :: real
  adj_risk_score :: risk_score

record metrics =
  final_capital :: real
  total_return :: real
  max_drawdown :: real
  sharpe_ratio :: real
  risk_adjusted_return :: real

record backtest_results =
  trades :: "trade list"
  metrics :: metrics
  risk_adjustments :: "risk_adjustment list"

text \<open>\<open>_calculate_max_drawdown\<close>: the loop over the capitals carries \<open>peak\<close> and
  \<open>max_dd\<close>.\<close>

fun drawdown_loop :: "real list \<Rightarrow> real \<Rightarrow> real \<Rightarrow> exn + real" where
  "drawdown_loop [] peak max_dd = Inr max_dd"
| "drawdown_loop (capital # rest) peak max_dd =
     (let peak' = (if capital > peak then capital else peak)
      in and_then (py_div (peak' - capital) peak') (\<lambda>dd.
           drawdown_loop rest peak' (if dd > max_dd then dd else max_dd)))"

definition calculate_max_drawdown :: "trade list \<Rightarrow> exn + real" where
  "calculate_max_drawdown ts =
     (let capitals = map trade_capital ts
      in case capitals of
           [] \<Rightarrow> Inl IndexError
         | peak # _ \<Rightarrow> and_then (drawdown_loop capitals peak 0) (\<lambda>max_dd. Inr (max_dd * 100)))"

text \<open>The list comprehension of \<open>_calculate_sharpe_ratio\<close> over
  \<open>zip(trades[1:], trades[:-1])\<close>.\<close>

fun period_returns :: "(real \<times> real) list \<Rightarrow> exn + real list" where
  "period_returns [] = Inr []"
| "period_returns ((t, prev) # rest) =
     and_then (py_div (t - prev) prev) (\<lambda>r.
       and_then (period_returns rest) (\<lambda>rs. Inr (r # rs)))"

definition calculate_sharpe_ratio :: "trade list \<Rightarrow> exn + real" where
  "calculate_sharpe_ratio ts =
     (let capitals = map trade_capital ts
      in and_then (period_returns (zip (tl capitals) (butlast capitals))) (\<lambda>returns.
           if returns = [] then Inr 0
           else let avg_return = mean returns; std_return = pstd returns
                in if std_return = 0 then Inr 0
                   else Inr ((avg_return / std_return) * sqrt 252)))"

definition calculate_risk_adjusted_return :: "trade list \<Rightarrow> exn + real" where
  "calculate_risk_adjusted_return ts =
     and_then (last_item ts) (\<lambda>tl_trade.
       case ts of
         [] \<Rightarrow> Inl IndexError
       | hd_trade # _ \<Rightarrow>
           and_then (py_div (trade_capital tl_trade - trade_capital hd_trade)
                       (trade_capital hd_trade)) (\<lambda>total.
             and_then (calculate_max_drawdown ts) (\<lambda>max_dd.
               if max_dd = 0 then Inr 0 else py_div total (max_dd / 100))))"

text \<open>One period of the loop of \<open>backtest_risk_strategy\<close>: the capital and the two
  result lists are the state.\<close>

definition backtest_period ::
  "risk_manager \<Rightarrow> corrcoef \<Rightarrow> string \<Rightarrow> pyval \<Rightarrow>
   real \<times> trade list \<times> risk_adjustment list \<Rightarrow>
   exn + real \<times> trade list \<times> risk_adjustment list" where
  "backtest_period rm cc date data st =
     (case st of (capital, ts, adjs) \<Rightarrow>
      and_then (item data ''market'') (\<lambda>market.
      and_then (item data ''sentiment'') (\<lambda>sentiment.
      and_then (item data ''portfolio'') (\<lambda>portfolio.
      and_then (calculate_risk_score rm cc market sentiment portfolio) (\<lambda>rs.
      and_then (item data ''price'') (\<lambda>pv.
      and_then (as_num pv) (\<lambda>price.
      and_then (calculate_position_size rm capital price (price * 0.95)) (\<lambda>position.
        let adjusted_size = ps_position_size position * (score rs / 100)
        in and_then (item data ''next_price'') (\<lambda>nv.
           and_then (as_num nv) (\<lambda>next_price.
             let pnl = next_price - price;
                 trade_result = adjusted_size * pnl;
                 capital' = capital + trade_result
             in Inr (capital',
                     ts @ [\<lparr> trade_date = date, trade_risk_score = rs,
                              trade_position_size = adjusted_size, trade_pnl = trade_result,
                              trade_capital = capital' \<rparr>],
                     adjs @ [\<lparr> adj_date = date,
                                adj_original_size = ps_position_size position,
                                adj_adjusted_size = adjusted_size,
                                adj_risk_score = rs \<rparr>])))))))))))"

fun backtest_loop ::
  "risk_manager \<Rightarrow> corrcoef \<Rightarrow> (string \<times> pyval) list \<Rightarrow>
   real \<times> trade list \<times> risk_adjustment list \<Rightarrow>
   exn + real \<times> trade list \<times> risk_adjustment list" where
  "backtest_loop rm cc [] st = Inr st"
| "backtest_loop rm cc ((date, data) # rest) st =
     and_then (backtest_period rm cc date data st) (backtest_loop rm cc rest)"

text \<open>\<open>backtest_risk_strategy\<close>. \<open>historical_data\<close> is an ordered dictionary from dates
  to period records.\<close>

definition backtest_risk_strategy ::
  "risk_manager \<Rightarrow> corrcoef \<Rightarrow> (string \<times> pyval) list \<Rightarrow> (string \<times> real) list \<Rightarrow>
   exn + backtest_results" where
  "backtest_risk_strategy rm cc historical_data strategy_params =
     (let initial_capital = dict_get strategy_params ''initial_capital'' 10000
      in and_then (backtest_loop rm cc historical_data (initial_capital, [], []))
           (\<lambda>(capital, ts, adjs).
             and_then (py_div (capital - initial_capital) initial_capital) (\<lambda>q.
             and_then (calculate_max_drawdown ts) (\<lambda>mdd.
             and_then (calculate_sharpe_ratio ts) (\<lambda>sharpe.
             and_then (calculate_risk_adjusted_return ts) (\<lambda>rar.
               Inr \<lparr> trades = ts,
                     metrics = \<lparr> final_capital = capital, total_return = q * 100,
                                 max_drawdown = mdd, sharpe_ratio = sharpe,
                                 risk_adjusted_return = rar \<rparr>,
                     risk_adjustments = adjs \<rparr>))))))"

section \<open>The signal generator (\<open>scoring_system.py\<close>)\<close>

text \<open>What the transformer's \<open>forward\<close> returns, when it returns.\<close>

record prediction =
  price_predictions :: "real list"
  confidence_scores :: "real list"
  volatility_estimates :: "real list"

record analysis =
  an_transformer_confidence :: real
  an_technical_score :: real
  an_risk_score :: real
  an_volatility :: real

record trade_signal =
  ts_symbol :: string
  ts_signal :: string
  ts_confidence :: real
  ts_target_price :: "real option"
  ts_stop_loss :: "real option"
  ts_risk_reward :: real
  ts_position_size :: real
  ts_analysis :: analysis

text \<open>\<open>SignalScorer.generate_signal\<close>; \<open>forward\<close> is the transformer.\<close>

definition generate_signal ::
  "(real list \<Rightarrow> exn + prediction) \<Rightarrow> corrcoef \<Rightarrow> signal_scorer \<Rightarrow>
   string \<Rightarrow> real list \<Rightarrow> real list \<Rightarrow> pyval option \<Rightarrow> exn + trade_signal" where
  "generate_signal forward cc sc symbol price_data volume_data additional_features =
     and_then (forward price_data) (\<lambda>transformer_prediction.
       let predicted_prices = price_predictions transformer_prediction;
           confidence = confidence_scores transformer_prediction;
           volatility = volatility_estimates transformer_prediction
       in and_then (calculate_technical_score price_data volume_data) (\<lambda>tech.
          and_then (calculate_risk_score (scorer_risk_manager sc) cc
                      (Dict [(''prices'', Arr price_data), (''volumes'', Arr volume_data)])
                      (Dict [(''score'', Num tech)])
                      (Dict [(''positions'', Dict [])])) (\<lambda>risk_assessment.
          and_then (last_item price_data) (\<lambda>price.
          and_then (last_item predicted_prices) (\<lambda>predicted_price.
          and_then (last_item confidence) (\<lambda>conf.
          and_then (last_item volatility) (\<lambda>vol.
          and_then (combine_signals sc price predicted_price conf vol tech
                      (score risk_assessment)) (\<lambda>sig.
            Inr \<lparr> ts_symbol = symbol, ts_signal = sig_action sig,
                  ts_confidence = sig_confidence sig,
                  ts_target_price = sig_target_price sig,
                  ts_stop_loss = sig_stop_loss sig,
                  ts_risk_reward = sig_risk_reward sig,
                  ts_position_size = sig_position_size sig,
                  ts_analysis = \<lparr> an_transformer_confidence = conf,
                                   an_technical_score = tech,
                                   an_risk_score = score risk_assessment,
                                   an_volatility = vol \<rparr> \<rparr>))))))))"

section \<open>A model of \<open>np.corrcoef\<close>\<close>

text \<open>
  Pearson's coefficient of two arrays, as \<open>np.corrcoef(a, b)[0,1]\<close> computes it up to
  rounding: \<open>ValueError\<close> for arrays of different lengths, \<open>nan\<close> when a series is
  constant, has one sample or is empty. The theorems below hold for every \<open>corrcoef\<close>;
  this one is used at concrete inputs.
\<close>

definition pearson :: corrcoef where
  "pearson a b =
     and_then (as_arr a) (\<lambda>xs. and_then (as_arr b) (\<lambda>ys.
       if length xs \<noteq> length ys then Inl ValueError
       else let cov = sum_list (map (\<lambda>(x, y). (x - mean xs) * (y - mean ys)) (zip xs ys));
                vx = sum_list (map (\<lambda>x. (x - mean xs)\<^sup>2) xs);
                vy = sum_list (map (\<lambda>y. (y - mean ys)\<^sup>2) ys)
            in Inr (np_divide (Fin cov) (Fin (sqrt vx * sqrt vy)))))"

section \<open>Example inputs\<close>

text \<open>Concrete inputs at which the theorems below are instantiated: a one-sample market,
  three sentiment sources with the same score, an empty portfolio and a period record
  with price 100 and next price 105.\<close>

definition example_market :: pyval where
  "example_market = Dict [(''prices'', Arr [100]), (''volumes'', Arr [1000])]"

definition example_sentiment :: "real \<Rightarrow> pyval" where
  "example_sentiment x =
     Dict [(''news_sentiment'', Dict [(''score'', Num x)]),
           (''social_sentiment'', Dict [(''score'', Num x)]),
           (''technical_sentiment'', Dict [(''score'', Num x)])]"

definition example_portfolio :: pyval where
  "example_portfolio = Dict [(''positions'', Dict []), (''returns'', Dict [])]"

definition example_period :: "real \<Rightarrow> pyval" where
  "example_period x =
     Dict [(''market'', example_market), (''sentiment'', example_sentiment x),
           (''portfolio'', example_portfolio), (''price'', Num 100), (''next_price'', Num 105)]"

definition example_flat_trade :: "string \<Rightarrow> trade" where
  "example_flat_trade d =
     \<lparr> trade_date = d,
       trade_risk_score = \<lparr> score = 0, level = ''high'',
         components = [(''market_regime'', 80), (''sentiment'', - 370),
                       (''concentration'', 100), (''correlation'', 100)] \<rparr>,
       trade_position_size = 0, trade_pnl = 0, trade_capital = 10000 \<rparr>"

section \<open>Basic facts\<close>

lemma and_then_Inl [simp]: "and_then (Inl e) f = Inl e"
  by (simp add: and_then_def)

lemma and_then_Inr [simp]: "and_then (Inr x) f = f x"
  by (simp add: and_then_def)

lemma and_then_eq_Inr_iff:
  "and_then m f = Inr y \<longleftrightarrow> (\<exists>x. m = Inr x \<and> f x = Inr y)"
  by (cases m) simp_all

lemma py_div_zero [simp]: "py_div a 0 = Inl ZeroDivisionError"
  by (simp add: py_div_def)

lemma py_div_nonzero: "b \<noteq> 0 \<Longrightarrow> py_div a b = Inr (a / b)"
  by (simp add: py_div_def)

section \<open>The signal combiner: claims C2, C9 and C10\<close>

lemmas combiner_defs =
  combine_signals_def scorer_calculate_position_size_def py_div_def Let_def

lemmas config_defs =
  SignalScorer_default_def SignalScorer_init_def RiskManager_init_def dict_get_def

text \<open>
  Claim C2 (scenario A). With the constructor's defaults (confidence threshold 0.7, minimum
  risk/reward 2.0), the combiner called with price 100, predicted price 110, confidence
  0.9, volatility 0.05, technical score 0.8 and risk score 90 returns the action
  \<open>BUY\<close>, stop loss 95, target price 110, risk/reward 2.0 and the final score 0.87
  (returned as the signal's confidence). The position size it returns is 0.36.
\<close>

theorem scenario_A_buy:
  "combine_signals SignalScorer_default 100 110 0.9 0.05 0.8 90 =
     Inr \<lparr> sig_action = ''BUY'', sig_confidence = 0.87,
           sig_target_price = Some 110, sig_stop_loss = Some 95,
           sig_risk_reward = 2.0, sig_position_size = 0.36 \<rparr>"
  by (simp add: combiner_defs config_defs)

text \<open>
  Claim C9 says that every input with a confidence below the threshold gives
  \<open>WAIT\<close>. The price change is computed before the confidence gate, so at price 0
  the combiner raises \<open>ZeroDivisionError\<close>, whatever the confidence.
\<close>

theorem low_confidence_zero_price_raises:
  "0.5 < confidence_threshold SignalScorer_default \<and>
   combine_signals SignalScorer_default 0 110 0.5 0.05 0.8 90 = Inl ZeroDivisionError"
  by (simp add: combiner_defs config_defs)

text \<open>
  Claim C9, amended. For every input with a price other than 0 and a confidence strictly
  below the confidence threshold, the combiner returns the action \<open>WAIT\<close> with position
  size 0, risk/reward 0, the input confidence unchanged, and neither target price nor
  stop loss.
\<close>

theorem low_confidence_waits:
  assumes "price \<noteq> 0" and "confidence < confidence_threshold sc"
  shows "combine_signals sc price predicted_price confidence volatility technical_score risk_score =
     Inr \<lparr> sig_action = ''WAIT'', sig_confidence = confidence,
           sig_target_price = None, sig_stop_loss = None,
           sig_risk_reward = 0, sig_position_size = 0 \<rparr>"
  using assms by (simp add: combine_signals_def py_div_def)

text \<open>
  Claim C9, at price 100 and confidence 0.5.
\<close>

theorem low_confidence_waits_witness:
  "(100::real) \<noteq> 0 \<and> 0.5 < confidence_threshold SignalScorer_default \<and>
   combine_signals SignalScorer_default 100 110 0.5 0.05 0.8 90 =
     Inr \<lparr> sig_action = ''WAIT'', sig_confidence = 0.5,
           sig_target_price = None, sig_stop_loss = None,
           sig_risk_reward = 0, sig_position_size = 0 \<rparr>"
proof -
  have p: "(100::real) \<noteq> 0" by simp
  have c: "0.5 < confidence_threshold SignalScorer_default" by (simp add: config_defs)
  show ?thesis
    using p c low_confidence_waits [OF p c, where predicted_price = 110 and volatility = "0.05"
        and technical_score = "0.8" and risk_score = 90] by simp
qed

text \<open>
  Claim C10 says that the risk/reward returned equals the configured
  \<open>min_risk_reward\<close>. The constructor accepts any float: with \<open>min_risk_reward = -2\<close>
  the combiner returns the risk/reward 2 (and a \<open>BUY\<close> whose target 90 lies below the
  price).
\<close>

theorem negative_min_risk_reward_counterexample:
  "min_risk_reward (SignalScorer_init 0.7 (- 2) 0.02) = - 2 \<and>
   combine_signals (SignalScorer_init 0.7 (- 2) 0.02) 100 110 0.9 0.05 0.8 90 =
     Inr \<lparr> sig_action = ''BUY'', sig_confidence = 0.87,
           sig_target_price = Some 90, sig_stop_loss = Some 95,
           sig_risk_reward = 2, sig_position_size = 0.36 \<rparr>"
  by (simp add: combiner_defs config_defs)

lemma stop_distance:
  fixes price v :: real
  shows "price * (1 - v) - price = - (price * v)"
    and "price * (1 + v) - price = price * v"
    and "price - price * (1 - v) = price * v"
    and "price - price * (1 + v) = - (price * v)"
  by (simp_all add: algebra_simps)

lemma target_distance:
  fixes price x :: real
  shows "price + x - price = x" and "price - x - price = - x"
  by simp_all

text \<open>
  Claim C10, amended. For every input with confidence at least the confidence threshold,
  price other than 0 and volatility other than 0, the combiner returns, and the
  risk/reward it returns is the absolute value of the configured \<open>min_risk_reward\<close>,
  whatever the price, the predicted price, the volatility, the technical score and the
  risk score; it is \<open>min_risk_reward\<close> itself when that is not negative, as with the
  default 2.0.
\<close>

theorem risk_reward_is_abs_min_risk_reward:
  assumes "confidence_threshold sc \<le> confidence" and "price \<noteq> 0" and "volatility \<noteq> 0"
  shows "\<exists>s. combine_signals sc price predicted_price confidence volatility technical_score risk_score = Inr s
           \<and> sig_risk_reward s = abs (min_risk_reward sc)
           \<and> (0 \<le> min_risk_reward sc \<longrightarrow> sig_risk_reward s = min_risk_reward sc)"
proof (cases "0 < (predicted_price - price) / price")
  case True
  then show ?thesis
    using assms
    by (simp add: combiner_defs stop_distance target_distance abs_mult)
next
  case False
  then show ?thesis
    using assms
    by (simp add: combiner_defs stop_distance target_distance abs_mult)
qed

text \<open>
  Claim C10, at scenario A's input and the default configuration.
\<close>

theorem risk_reward_is_abs_min_risk_reward_witness:
  "confidence_threshold SignalScorer_default \<le> 0.9 \<and> (100::real) \<noteq> 0 \<and> (0.05::real) \<noteq> 0 \<and>
   (\<exists>s. combine_signals SignalScorer_default 100 110 0.9 0.05 0.8 90 = Inr s
      \<and> sig_risk_reward s = 2)"
proof -
  have c: "confidence_threshold SignalScorer_default \<le> 0.9" by (simp add: config_defs)
  have p: "(100::real) \<noteq> 0" by simp
  have v: "(0.05::real) \<noteq> 0" by simp
  have m: "min_risk_reward SignalScorer_default = 2" by (simp add: config_defs)
  show ?thesis
    using c m risk_reward_is_abs_min_risk_reward [OF c p v, where predicted_price = 110
        and technical_score = "0.8" and risk_score = 90] by auto
qed

section \<open>RSI: claim C7\<close>

lemma length_np_diff: "length (np_diff xs) = length xs - 1"
  by (simp add: np_diff_def)

lemma slice_from_map: "slice_from i (map f xs) = map f (slice_from i xs)"
  by (simp add: slice_from_def drop_map)

lemma rsi_value:
  fixes G L :: real
  assumes "0 \<le> G" "0 < L"
  shows "0 \<le> 100 - 100 / (1 + G / L)" "100 - 100 / (1 + G / L) < 100"
proof -
  have "0 \<le> G / L" using assms by simp
  then have pos: "1 \<le> 1 + G / L" by simp
  have "100 / (1 + G / L) \<le> 100 / 1"
    using pos by (intro divide_left_mono) auto
  then show "0 \<le> 100 - 100 / (1 + G / L)" by simp
  have "0 < 100 / (1 + G / L)" using pos by simp
  then show "100 - 100 / (1 + G / L) < 100" by simp
qed

text \<open>
  Claim C7, amended. For every price series with at least 15 prices (14 deltas, the
  window of the default period), the RSI is a number in \<open>[0, 100]\<close>, and it is 100
  exactly when every delta of the window is at least 0: the test is \<open>avg_loss == 0\<close>, so
  a flat window, with no positive delta, gives 100 as well.
\<close>

theorem rsi_range_and_top:
  assumes "15 \<le> length prices"
  shows "\<exists>r. calculate_rsi prices 14 = Fin r \<and> 0 \<le> r \<and> r \<le> 100
           \<and> (r = 100 \<longleftrightarrow> (\<forall>d \<in> set (slice_from (- 14) (np_diff prices)). 0 \<le> d))"
proof -
  define w where "w = slice_from (- 14) (np_diff prices)"
  define G where "G = mean (map (\<lambda>d. if d > 0 then d else 0) w)"
  define L where "L = mean (map (\<lambda>d. if d < 0 then - d else 0) w)"
  have wne: "w \<noteq> []"
    using assms by (simp add: w_def slice_from_def length_np_diff)
  then have npos: "0 < real (length w)" by simp
  have G0: "0 \<le> G"
    unfolding G_def mean_def by (intro divide_nonneg_nonneg sum_list_nonneg) auto
  have sL0: "0 \<le> sum_list (map (\<lambda>d. if d < 0 then - d else 0) w)"
    by (intro sum_list_nonneg) auto
  have L0: "0 \<le> L"
    unfolding L_def mean_def using sL0 by simp
  have Lz: "L = 0 \<longleftrightarrow> (\<forall>d \<in> set w. 0 \<le> d)"
  proof -
    have "L = 0 \<longleftrightarrow> sum_list (map (\<lambda>d. if d < 0 then - d else 0) w) = 0"
      using wne by (simp add: L_def mean_def)
    also have "\<dots> \<longleftrightarrow> (\<forall>x \<in> set (map (\<lambda>d. if d < 0 then - d else 0) w). x = 0)"
      by (intro sum_list_nonneg_eq_0_iff) auto
    also have "\<dots> \<longleftrightarrow> (\<forall>d \<in> set w. 0 \<le> d)"
    proof
      assume a: "\<forall>x \<in> set (map (\<lambda>d. if d < 0 then - d else 0) w). x = 0"
      show "\<forall>d \<in> set w. 0 \<le> d"
      proof
        fix d assume "d \<in> set w"
        then have "(if d < 0 then - d else 0) = 0" using a by simp
        then show "0 \<le> d" by (simp split: if_splits)
      qed
    next
      assume "\<forall>d \<in> set w. 0 \<le> d"
      then show "\<forall>x \<in> set (map (\<lambda>d. if d < 0 then - d else 0) w). x = 0" by auto
    qed
    finally show ?thesis .
  qed
  have val: "calculate_rsi prices 14 = (if L = 0 then Fin 100 else Fin (100 - 100 / (1 + G / L)))"
  proof (cases "L = 0")
    case True
    then show ?thesis
      using wne
      by (simp add: calculate_rsi_def Let_def slice_from_map w_def [symmetric] np_mean_def
          L_def)
  next
    case False
    then have "0 < L" using L0 by simp
    then have "0 \<le> G / L" using G0 by simp
    then have "1 + G / L \<noteq> 0" by simp
    then show ?thesis
      using wne False
      by (simp add: calculate_rsi_def Let_def slice_from_map w_def [symmetric] np_mean_def
          L_def [symmetric] G_def [symmetric] np_sub_def)
  qed
  show ?thesis
  proof (cases "L = 0")
    case True
    then show ?thesis using val Lz by (simp add: w_def)
  next
    case False
    then have "0 < L" using L0 by simp
    from rsi_value [OF G0 this] show ?thesis
      using val Lz False by (simp add: w_def)
  qed
qed

text \<open>
  Claim C7, at a series that rises thirteen times and falls once: the RSI is below 100.
\<close>

theorem rsi_range_and_top_witness:
  "15 \<le> length [100, 101, 102, 103, 104, 105, 106, 107, 108, 109, 110, 111, 112, 113, 112 :: real]
   \<and> (\<exists>r. calculate_rsi
            [100, 101, 102, 103, 104, 105, 106, 107, 108, 109, 110, 111, 112, 113, 112] 14 = Fin r
          \<and> 0 \<le> r \<and> r \<le> 100 \<and> r \<noteq> 100)"
proof -
  let ?xs = "[100, 101, 102, 103, 104, 105, 106, 107, 108, 109, 110, 111, 112, 113, 112 :: real]"
  have h: "15 \<le> length ?xs" by simp
  have w: "- 1 \<in> set (slice_from (- 14) (np_diff ?xs))"
    by (simp add: np_diff_def slice_from_def)
  then have "\<not> (\<forall>d \<in> set (slice_from (- 14) (np_diff ?xs)). 0 \<le> d)"
    by (metis neg_0_le_iff_le not_one_le_zero)
  then show ?thesis using h rsi_range_and_top [OF h] by auto
qed

text \<open>
  Claim C7 says that the RSI is 100 only if some delta of the window is positive. On
  fifteen equal prices all fourteen deltas are 0 and the RSI is 100.
\<close>

theorem flat_prices_rsi_100:
  "calculate_rsi (replicate 15 100) 14 = Fin 100 \<and>
   slice_from (- 14) (np_diff (replicate 15 100)) = replicate 14 0"
  by (simp add: calculate_rsi_def np_diff_def slice_from_def np_mean_def mean_def Let_def
      numeral_eq_Suc)

section \<open>Market regime: claim C3\<close>

lemma not_high_volatility: "\<not> is_high_volatility v"
  by (cases v) (simp_all add: is_high_volatility_def np_greater_def)

lemma detect_market_regime_empty:
  "detect_market_regime price_data [] = Inl IndexError"
  by (simp add: detect_market_regime_def last_item_def)

lemma detect_market_regime_value:
  assumes "volume_data \<noteq> []"
  shows "detect_market_regime price_data volume_data =
     Inr \<lparr> regime = (if last volume_data > mean volume_data * 1.5 then ''high_volume''
                      else ''normal''),
           risk_multiplier = (if last volume_data > mean volume_data * 1.5 then 0.8 else 1.0),
           regime_volatility = np_std price_data,
           volume_ratio = np_divide (Fin (last volume_data)) (Fin (mean volume_data)) \<rparr>"
  using assms
  by (simp add: detect_market_regime_def last_item_def not_high_volatility is_high_volume_def
      np_mean_def np_greater_def Let_def)

text \<open>
  Claim C3. For every price series and volume series the high-volatility test is false:
  it compares the volatility with the mean plus the standard deviation of that one
  scalar. So \<open>detect_market_regime\<close> never returns \<open>high_risk\<close> (multiplier 0.5) or
  \<open>volatile\<close> (multiplier 0.7); when there is a last volume, it returns
  \<open>high_volume\<close> (multiplier 0.8) exactly when the last volume exceeds 1.5 times the mean
  volume, and \<open>normal\<close> (multiplier 1.0) otherwise. (On an empty volume series
  \<open>volume_data[-1]\<close> raises \<open>IndexError\<close>: lemma \<open>detect_market_regime_empty\<close>.)
\<close>

theorem regime_is_high_volume_or_normal:
  "\<not> is_high_volatility (np_std price_data)
   \<and> (\<forall>r. detect_market_regime price_data volume_data = Inr r \<longrightarrow>
         regime r \<noteq> ''high_risk'' \<and> regime r \<noteq> ''volatile''
         \<and> risk_multiplier r \<noteq> 0.5 \<and> risk_multiplier r \<noteq> 0.7)
   \<and> (volume_data \<noteq> [] \<longrightarrow>
        (\<exists>r. detect_market_regime price_data volume_data = Inr r
           \<and> (if last volume_data > 1.5 * mean volume_data
               then regime r = ''high_volume'' \<and> risk_multiplier r = 0.8
               else regime r = ''normal'' \<and> risk_multiplier r = 1.0)))"
proof (cases "volume_data = []")
  case True
  then show ?thesis
    by (simp add: not_high_volatility detect_market_regime_empty)
next
  case False
  then show ?thesis
    by (simp add: not_high_volatility detect_market_regime_value mult.commute)
qed

text \<open>
  Claim C3, at a volume series whose last value is twice its mean.
\<close>

theorem regime_is_high_volume_or_normal_witness:
  "[1000, 1000, 4000] \<noteq> ([]::real list) \<and> last [1000, 1000, 4000] > 1.5 * mean [1000, 1000, 4000::real]
   \<and> (\<exists>r. detect_market_regime [100, 101, 99] [1000, 1000, 4000] = Inr r
        \<and> regime r = ''high_volume'' \<and> risk_multiplier r = 0.8)"
  using regime_is_high_volume_or_normal [of "[100, 101, 99]" "[1000, 1000, 4000]"]
  by (simp add: mean_def)

section \<open>Degenerate inputs: claim C4\<close>

text \<open>
  Claim C4 says that the degenerate inputs fail with typed errors. The source has no
  such error: an entry price equal to the stop price and a volatility of 0 raise
  \<open>ZeroDivisionError\<close>; a portfolio without positions has total exposure 0 and the
  heat map returns three empty buckets; a portfolio whose positions sum to 0 raises
  \<open>ZeroDivisionError\<close>.
\<close>

theorem degenerate_inputs_counterexample:
  "calculate_position_size (RiskManager_init []) 10000 100 100 = Inl ZeroDivisionError
   \<and> calculate_position_size (RiskManager_init []) 10000 100 100 \<noteq> Inl (Custom ''InvalidStopLoss'')
   \<and> calculate_safe_leverage (RiskManager_init []) 10000 5000 0 = Inl ZeroDivisionError
   \<and> calculate_safe_leverage (RiskManager_init []) 10000 5000 0 \<noteq> Inl (Custom ''InvalidVolatility'')
   \<and> generate_portfolio_heat_map (Dict [(''BTC'', Dict [(''value'', Num 0)])]) = Inl ZeroDivisionError
   \<and> sum_values [] 0 = Inr 0
   \<and> generate_portfolio_heat_map (Dict []) = Inr \<lparr> high_risk = [], medium_risk = [], low_risk = [] \<rparr>"
  by (simp add: calculate_position_size_def calculate_safe_leverage_def
      generate_portfolio_heat_map_def)

lemma heat_map_loop_zero_exposure:
  assumes "sum_values (p # ps) acc = Inr t"
  shows "heat_map_loop 0 (p # ps) m = Inl ZeroDivisionError"
proof -
  obtain symbol pos where p: "p = (symbol, pos)" by (cases p)
  from assms obtain v x where "item pos ''value'' = Inr v" "as_num v = Inr x"
    unfolding p by (auto simp: and_then_eq_Inr_iff)
  then show ?thesis by (simp add: p)
qed

lemma item_not_Custom: "item d k \<noteq> Inl (Custom n)"
  by (cases d) (simp_all split: option.splits)

lemma as_num_not_Custom: "as_num v \<noteq> Inl (Custom n)"
  by (cases v) simp_all

lemma py_div_not_Custom: "py_div a b \<noteq> Inl (Custom n)"
  by (simp add: py_div_def)

lemma and_then_not_Custom:
  assumes "m \<noteq> Inl (Custom n)" and "\<And>x. f x \<noteq> Inl (Custom n)"
  shows "and_then m f \<noteq> Inl (Custom n)"
  using assms by (cases m) simp_all

lemma sum_values_not_Custom: "sum_values ps acc \<noteq> Inl (Custom n)"
proof (induction ps arbitrary: acc)
  case Nil
  then show ?case by simp
next
  case (Cons p ps)
  obtain symbol pos where p: "p = (symbol, pos)" by (cases p)
  show ?case
    unfolding p sum_values.simps
    by (intro and_then_not_Custom item_not_Custom as_num_not_Custom Cons.IH)
qed

lemma heat_map_loop_not_Custom: "heat_map_loop t ps m \<noteq> Inl (Custom n)"
proof (induction ps arbitrary: m)
  case Nil
  then show ?case by simp
next
  case (Cons p ps)
  obtain symbol pos where p: "p = (symbol, pos)" by (cases p)
  show ?case
    unfolding p heat_map_loop.simps
    by (intro and_then_not_Custom item_not_Custom as_num_not_Custom py_div_not_Custom Cons.IH)
qed

lemma heat_map_not_Custom: "generate_portfolio_heat_map positions \<noteq> Inl (Custom n)"
  unfolding generate_portfolio_heat_map_def Let_def
  by (intro and_then_not_Custom sum_values_not_Custom heat_map_loop_not_Custom)
    (cases positions; simp)

text \<open>
  Claim C4, amended. \<open>calculate_position_size\<close> raises \<open>ZeroDivisionError\<close> when the
  entry price equals the stop price; \<open>calculate_safe_leverage\<close> raises
  \<open>ZeroDivisionError\<close> when the volatility is 0; \<open>generate_portfolio_heat_map\<close>, when
  the total exposure is 0, returns three empty buckets if there is no position and raises
  \<open>ZeroDivisionError\<close> otherwise. None of the three ever raises an application-defined
  (typed) error.
\<close>

theorem degenerate_inputs_raise_builtin_errors:
  "(entry_price = stop_loss_price \<longrightarrow>
      calculate_position_size rm account_balance entry_price stop_loss_price = Inl ZeroDivisionError)
   \<and> (volatility = 0 \<longrightarrow>
      calculate_safe_leverage rm account_balance position_value volatility = Inl ZeroDivisionError)
   \<and> (sum_values ps 0 = Inr 0 \<longrightarrow>
      generate_portfolio_heat_map (Dict ps) =
        (if ps = [] then Inr \<lparr> high_risk = [], medium_risk = [], low_risk = [] \<rparr>
         else Inl ZeroDivisionError))
   \<and> calculate_position_size rm account_balance entry_price stop_loss_price \<noteq> Inl (Custom name)
   \<and> calculate_safe_leverage rm account_balance position_value volatility \<noteq> Inl (Custom name)
   \<and> generate_portfolio_heat_map positions \<noteq> Inl (Custom name)"
proof -
  have a: "entry_price = stop_loss_price \<longrightarrow>
      calculate_position_size rm account_balance entry_price stop_loss_price = Inl ZeroDivisionError"
    by (simp add: calculate_position_size_def)
  have b: "volatility = 0 \<longrightarrow>
      calculate_safe_leverage rm account_balance position_value volatility = Inl ZeroDivisionError"
    by (simp add: calculate_safe_leverage_def)
  have c: "sum_values ps 0 = Inr 0 \<longrightarrow>
      generate_portfolio_heat_map (Dict ps) =
        (if ps = [] then Inr \<lparr> high_risk = [], medium_risk = [], low_risk = [] \<rparr>
         else Inl ZeroDivisionError)"
  proof (cases ps)
    case Nil
    then show ?thesis by (simp add: generate_portfolio_heat_map_def)
  next
    case (Cons p ps')
    show ?thesis
    proof
      assume s: "sum_values ps 0 = Inr 0"
      then have "heat_map_loop 0 ps \<lparr> high_risk = [], medium_risk = [], low_risk = [] \<rparr>
                 = Inl ZeroDivisionError"
        unfolding Cons by (rule heat_map_loop_zero_exposure)
      then show "generate_portfolio_heat_map (Dict ps) =
        (if ps = [] then Inr \<lparr> high_risk = [], medium_risk = [], low_risk = [] \<rparr>
         else Inl ZeroDivisionError)"
        using s Cons by (simp add: generate_portfolio_heat_map_def)
    qed
  qed
  have d: "calculate_position_size rm account_balance entry_price stop_loss_price \<noteq> Inl (Custom name)"
    by (simp add: calculate_position_size_def py_div_def Let_def)
  have e: "calculate_safe_leverage rm account_balance position_value volatility \<noteq> Inl (Custom name)"
    by (simp add: calculate_safe_leverage_def py_div_def Let_def)
  show ?thesis
    using a b c d e heat_map_not_Custom by blast
qed


text \<open>
  Claim C4, at entry price and stop price 100, volatility 0 and one position of value 0.
\<close>

theorem degenerate_inputs_raise_builtin_errors_witness:
  "(100::real) = 100 \<and> (0::real) = 0 \<and> sum_values [(''BTC'', Dict [(''value'', Num 0)])] 0 = Inr 0
   \<and> calculate_position_size (RiskManager_init []) 10000 100 100 = Inl ZeroDivisionError
   \<and> calculate_safe_leverage (RiskManager_init []) 10000 5000 0 = Inl ZeroDivisionError
   \<and> generate_portfolio_heat_map (Dict [(''BTC'', Dict [(''value'', Num 0)])]) = Inl ZeroDivisionError"
  using degenerate_inputs_raise_builtin_errors [of 100 100 "RiskManager_init []" 10000 0 5000
      "[(''BTC'', Dict [(''value'', Num 0)])]"]
  by simp

section \<open>Empty history: claim C8\<close>

text \<open>
  Claim C8 says that an empty history fails with a typed \<open>EmptyHistory\<close> error. With the
  default parameters the failure is the \<open>IndexError\<close> of \<open>capitals[0]\<close> in
  \<open>_calculate_max_drawdown\<close>.
\<close>

theorem empty_history_counterexample:
  "backtest_risk_strategy (RiskManager_init []) pearson [] [] = Inl IndexError
   \<and> backtest_risk_strategy (RiskManager_init []) pearson [] [] \<noteq> Inl (Custom ''EmptyHistory'')"
  by (simp add: backtest_risk_strategy_def Let_def py_div_def calculate_max_drawdown_def
      dict_get_def)

text \<open>
  Claim C8, amended. On an empty history \<open>backtest_risk_strategy\<close> never returns: it
  raises \<open>ZeroDivisionError\<close> (the total return) when the initial capital is 0, and
  otherwise \<open>IndexError\<close> (the first capital of an empty trade list).
\<close>

theorem empty_history_raises_builtin_error:
  "backtest_risk_strategy rm cc [] strategy_params =
     (if dict_get strategy_params ''initial_capital'' 10000 = 0 then Inl ZeroDivisionError
      else Inl IndexError)"
  by (simp add: backtest_risk_strategy_def Let_def py_div_def calculate_max_drawdown_def)

text \<open>
  Claim C8, at initial capital 0 and at initial capital 5000.
\<close>

theorem empty_history_raises_builtin_error_witness:
  "backtest_risk_strategy (RiskManager_init []) pearson [] [(''initial_capital'', 0)]
     = Inl ZeroDivisionError
   \<and> backtest_risk_strategy (RiskManager_init []) pearson [] [(''initial_capital'', 5000)]
     = Inl IndexError"
  using empty_history_raises_builtin_error [of "RiskManager_init []" pearson "[(''initial_capital'', 0)]"]
    empty_history_raises_builtin_error [of "RiskManager_init []" pearson "[(''initial_capital'', 5000)]"]
  by (simp add: dict_get_def)

section \<open>The signal generator: claim C1\<close>

lemma technical_score_Inr:
  assumes "calculate_technical_score price_data volume_data = Inr t"
  shows "price_data \<noteq> [] \<and> volume_data \<noteq> []"
  using assms
  by (auto simp: calculate_technical_score_def calculate_trend_score_def Let_def last_item_def
      and_then_eq_Inr_iff split: if_splits)

lemma technical_score_total:
  assumes "price_data \<noteq> []" "volume_data \<noteq> []"
  shows "\<exists>t. calculate_technical_score price_data volume_data = Inr t"
  using assms
  by (simp add: calculate_technical_score_def calculate_trend_score_def Let_def last_item_def)

lemma risk_score_without_sentiment_keys:
  assumes "volume_data \<noteq> []"
  shows "calculate_risk_score rm cc
           (Dict [(''prices'', Arr price_data), (''volumes'', Arr volume_data)])
           (Dict [(''score'', Num t)]) portfolio_data = Inl (KeyError ''news_sentiment'')"
  using assms
  by (simp add: calculate_risk_score_def detect_market_regime_value adjust_risk_by_sentiment_def
      source_score_def)

lemma risk_score_without_returns_key:
  assumes "volume_data \<noteq> []"
  shows "calculate_risk_score rm cc
           (Dict [(''prices'', Arr price_data), (''volumes'', Arr volume_data)])
           (Dict [(''news_sentiment'', Dict [(''score'', Num n)]),
                  (''social_sentiment'', Dict [(''score'', Num s)]),
                  (''technical_sentiment'', Dict [(''score'', Num t)])])
           (Dict [(''positions'', Dict [])]) = Inl (KeyError ''returns'')"
  using assms
  by (simp add: calculate_risk_score_def detect_market_regime_value adjust_risk_by_sentiment_def
      source_score_def generate_portfolio_heat_map_def Let_def)

text \<open>
  Claim C1. For every transformer, symbol, price series, volume series and features,
  \<open>generate_signal\<close> raises and never returns a trade signal. When the transformer returns
  and both series are non-empty (otherwise the technical score raises \<open>IndexError\<close>
  first), the failure is the \<open>KeyError\<close> of \<open>sentiment_data['news_sentiment']\<close>
  in the risk score, which is given \<open>{'score': technical_score}\<close>. Given well-formed
  sentiment data, the portfolio \<open>{'positions': {}}\<close> that \<open>generate_signal\<close> passes
  would fail next, on \<open>portfolio_data['returns']\<close>.
\<close>

theorem generate_signal_always_raises:
  "(\<exists>e. generate_signal forward cc sc symbol price_data volume_data additional_features = Inl e)
   \<and> (\<forall>p. forward price_data = Inr p \<and> price_data \<noteq> [] \<and> volume_data \<noteq> [] \<longrightarrow>
         generate_signal forward cc sc symbol price_data volume_data additional_features
           = Inl (KeyError ''news_sentiment''))
   \<and> (\<forall>n s t. volume_data \<noteq> [] \<longrightarrow>
         calculate_risk_score (scorer_risk_manager sc) cc
           (Dict [(''prices'', Arr price_data), (''volumes'', Arr volume_data)])
           (Dict [(''news_sentiment'', Dict [(''score'', Num n)]),
                  (''social_sentiment'', Dict [(''score'', Num s)]),
                  (''technical_sentiment'', Dict [(''score'', Num t)])])
           (Dict [(''positions'', Dict [])]) = Inl (KeyError ''returns''))"
proof -
  have reached: "generate_signal forward cc sc symbol price_data volume_data additional_features
           = Inl (KeyError ''news_sentiment'')"
    if "forward price_data = Inr p" "price_data \<noteq> []" "volume_data \<noteq> []" for p
  proof -
    from technical_score_total [OF that(2,3)] obtain t
      where "calculate_technical_score price_data volume_data = Inr t" ..
    then show ?thesis
      using that by (simp add: generate_signal_def Let_def risk_score_without_sentiment_keys)
  qed
  have raises: "\<exists>e. generate_signal forward cc sc symbol price_data volume_data additional_features = Inl e"
  proof (cases "forward price_data")
    case (Inl e)
    then show ?thesis by (simp add: generate_signal_def)
  next
    case (Inr p)
    show ?thesis
    proof (cases "calculate_technical_score price_data volume_data")
      case (Inl e)
      then show ?thesis using Inr by (simp add: generate_signal_def Let_def)
    next
      case t: (Inr t)
      from technical_score_Inr [OF t] reached [OF Inr] show ?thesis by simp
    qed
  qed
  show ?thesis
    using raises reached risk_score_without_returns_key by blast
qed

text \<open>
  Claim C1, with a transformer that returns one prediction and with one that raises.
\<close>

theorem generate_signal_always_raises_witness:
  "generate_signal
     (\<lambda>x. Inr \<lparr> price_predictions = [110], confidence_scores = [0.9],
                volatility_estimates = [0.05] \<rparr>)
     pearson SignalScorer_default ''BTCUSDT'' [100, 101] [1000, 1000] None
     = Inl (KeyError ''news_sentiment'')
   \<and> generate_signal (\<lambda>x. Inl ValueError) pearson SignalScorer_default ''BTCUSDT'' [100, 101]
       [1000, 1000] None = Inl ValueError
   \<and> calculate_risk_score (scorer_risk_manager SignalScorer_default) pearson
           (Dict [(''prices'', Arr [100, 101]), (''volumes'', Arr [1000, 1000])])
           (Dict [(''news_sentiment'', Dict [(''score'', Num 0.5)]),
                  (''social_sentiment'', Dict [(''score'', Num 0.5)]),
                  (''technical_sentiment'', Dict [(''score'', Num 0.5)])])
           (Dict [(''positions'', Dict [])]) = Inl (KeyError ''returns'')"
  using generate_signal_always_raises [of
      "\<lambda>x. Inr \<lparr> price_predictions = [110], confidence_scores = [0.9],
                volatility_estimates = [0.05] \<rparr>"
      pearson SignalScorer_default "''BTCUSDT''" "[100, 101]" "[1000, 1000]" None]
  by (simp add: generate_signal_def)

section \<open>The risk score: claim C5\<close>

lemma regime_score_cases:
  assumes "detect_market_regime prices volumes = Inr market"
  shows "dict_get regime_scores (regime market) 50 = 60
         \<or> dict_get regime_scores (regime market) 50 = 80"
proof (cases "volumes = []")
  case True
  then show ?thesis using assms by (simp add: detect_market_regime_empty)
next
  case False
  then show ?thesis
    using assms
    by (auto simp: detect_market_regime_value dict_get_def regime_scores_def split: if_splits)
qed

lemma adjust_risk_by_sentiment_score:
  assumes "adjust_risk_by_sentiment base sentiment_data = Inr a"
    and "source_score sentiment_data ''news_sentiment'' = Inr news"
    and "source_score sentiment_data ''social_sentiment'' = Inr social"
    and "source_score sentiment_data ''technical_sentiment'' = Inr technical"
  shows "sentiment_score a = news * 0.3 + social * 0.3 + technical * 0.4"
  using assms by (auto simp: adjust_risk_by_sentiment_def Let_def)

lemma and_then_InrE:
  assumes "and_then m f = Inr y"
  obtains x where "m = Inr x" and "f x = Inr y"
  using assms by (cases m) auto

lemma calculate_risk_score_Inr:
  assumes "calculate_risk_score rm cc market_data sentiment_data portfolio_data = Inr r"
  obtains prices volumes market a positions hm returns cd where
    "detect_market_regime prices volumes = Inr market"
    "adjust_risk_by_sentiment 1.0 sentiment_data = Inr a"
    "generate_portfolio_heat_map positions = Inr hm"
    "calculate_correlation_risk rm cc returns = Inr cd"
    "score r = dict_get regime_scores (regime market) 50 * 0.3
                  + sentiment_score a * 100 * 0.2
                  + max 0 (100 - real (length (high_risk hm)) * 20) * 0.25
                  + max 0 (100 - real (length (high_correlation_pairs cd)) * 15) * 0.25"
    "level r = level_of (score r)"
    "components r =
          [(''market_regime'', dict_get regime_scores (regime market) 50),
           (''sentiment'', sentiment_score a * 100),
           (''concentration'', max 0 (100 - real (length (high_risk hm)) * 20)),
           (''correlation'', max 0 (100 - real (length (high_correlation_pairs cd)) * 15))]"
  using assms unfolding calculate_risk_score_def Let_def
  apply (elim and_then_InrE)
  subgoal for pv vv prices volumes market a positions hm returns cd f
    apply (rule that [of prices volumes market a positions hm returns cd])
          apply (auto simp: score_weights_def)
    done
  done

lemma weighted_bounds:
  fixes m s c k :: real
  assumes "m = 60 \<or> m = 80" "0 \<le> s" "s \<le> 100" "0 \<le> c" "c \<le> 100" "0 \<le> k" "k \<le> 100"
  shows "18 \<le> m * 0.3 + s * 0.2 + c * 0.25 + k * 0.25"
    and "m * 0.3 + s * 0.2 + c * 0.25 + k * 0.25 \<le> 94"
  using assms by auto

lemma risk_score_bounds:
  assumes "source_score sentiment_data ''news_sentiment'' = Inr news" "0 \<le> news" "news \<le> 1"
    and "source_score sentiment_data ''social_sentiment'' = Inr social" "0 \<le> social" "social \<le> 1"
    and "source_score sentiment_data ''technical_sentiment'' = Inr technical"
      "0 \<le> technical" "technical \<le> 1"
    and "calculate_risk_score rm cc market_data sentiment_data portfolio_data = Inr r"
  shows "0 \<le> score r \<and> score r \<le> 100 \<and> 18 \<le> score r \<and> score r \<le> 94
     \<and> level r = (if score r < 40 then ''high'' else if score r < 70 then ''medium'' else ''low'')
     \<and> (\<exists>m s c k. components r = [(''market_regime'', m), (''sentiment'', s),
                                  (''concentration'', c), (''correlation'', k)]
          \<and> 0 \<le> m \<and> m \<le> 100 \<and> 0 \<le> s \<and> s \<le> 100 \<and> 0 \<le> c \<and> c \<le> 100 \<and> 0 \<le> k \<and> k \<le> 100
          \<and> score r = m * 0.3 + s * 0.2 + c * 0.25 + k * 0.25)"
proof -
  from assms(10) obtain prices volumes market a positions hm returns cd where
    d: "detect_market_regime prices volumes = Inr market"
    and a: "adjust_risk_by_sentiment 1.0 sentiment_data = Inr a"
    and "generate_portfolio_heat_map positions = Inr hm"
    and "calculate_correlation_risk rm cc returns = Inr cd"
    and sc0: "score r = dict_get regime_scores (regime market) 50 * 0.3
                  + sentiment_score a * 100 * 0.2
                  + max 0 (100 - real (length (high_risk hm)) * 20) * 0.25
                  + max 0 (100 - real (length (high_correlation_pairs cd)) * 15) * 0.25"
    and lv: "level r = level_of (score r)"
    and cs0: "components r =
          [(''market_regime'', dict_get regime_scores (regime market) 50),
           (''sentiment'', sentiment_score a * 100),
           (''concentration'', max 0 (100 - real (length (high_risk hm)) * 20)),
           (''correlation'', max 0 (100 - real (length (high_correlation_pairs cd)) * 15))]"
    by (rule calculate_risk_score_Inr)
  define m where "m = dict_get regime_scores (regime market) 50"
  define s where "s = sentiment_score a * 100"
  define c where "c = max 0 (100 - real (length (high_risk hm)) * 20)"
  define k where "k = max 0 (100 - real (length (high_correlation_pairs cd)) * 15)"
  have m: "m = 60 \<or> m = 80"
    unfolding m_def by (rule regime_score_cases [OF d])
  have "sentiment_score a = news * 0.3 + social * 0.3 + technical * 0.4"
    by (rule adjust_risk_by_sentiment_score [OF a assms(1,4,7)])
  then have s: "0 \<le> s" "s \<le> 100"
    using assms(2,3,5,6,8,9) by (simp_all add: s_def)
  have c: "0 \<le> c" "c \<le> 100" by (simp_all add: c_def)
  have k: "0 \<le> k" "k \<le> 100" by (simp_all add: k_def)
  have sc: "score r = m * 0.3 + s * 0.2 + c * 0.25 + k * 0.25"
    unfolding sc0 m_def s_def c_def k_def ..
  have cs: "components r = [(''market_regime'', m), (''sentiment'', s),
                             (''concentration'', c), (''correlation'', k)]"
    unfolding cs0 m_def s_def c_def k_def ..
  from weighted_bounds [OF m s c k] have b: "18 \<le> score r" "score r \<le> 94"
    unfolding sc by simp_all
  have mb: "0 \<le> m" "m \<le> 100" using m by auto
  have range: "0 \<le> score r \<and> score r \<le> 100 \<and> 18 \<le> score r \<and> score r \<le> 94"
    using b by simp
  have lvl: "level r = (if score r < 40 then ''high'' else if score r < 70 then ''medium'' else ''low'')"
    unfolding lv level_of_def ..
  have comp: "\<exists>m s c k. components r = [(''market_regime'', m), (''sentiment'', s),
                                  (''concentration'', c), (''correlation'', k)]
          \<and> 0 \<le> m \<and> m \<le> 100 \<and> 0 \<le> s \<and> s \<le> 100 \<and> 0 \<le> c \<and> c \<le> 100 \<and> 0 \<le> k \<and> k \<le> 100
          \<and> score r = m * 0.3 + s * 0.2 + c * 0.25 + k * 0.25"
    using cs mb s c k sc by blast
  show ?thesis using range lvl comp by blast
qed

lemma example_source_scores:
  "source_score (example_sentiment x) ''news_sentiment'' = Inr x"
  "source_score (example_sentiment x) ''social_sentiment'' = Inr x"
  "source_score (example_sentiment x) ''technical_sentiment'' = Inr x"
  by (simp_all add: source_score_def example_sentiment_def)

lemma example_risk_score0:
  "calculate_risk_score rm pearson example_market (example_sentiment x) example_portfolio =
     Inr \<lparr> score = 74 + 20 * x, level = level_of (74 + 20 * x),
           components = [(''market_regime'', 80), (''sentiment'', x * 100),
                         (''concentration'', 100), (''correlation'', 100)] \<rparr>"
  by (simp add: calculate_risk_score_def example_market_def example_sentiment_def
      example_portfolio_def detect_market_regime_value adjust_risk_by_sentiment_def
      source_score_def generate_portfolio_heat_map_def calculate_correlation_risk_def
      Let_def mean_def dict_get_def regime_scores_def score_weights_def algebra_simps)

subsection \<open>Inputs on which the risk score returns\<close>

lemma sum_values_total:
  assumes "\<forall>p \<in> set ps. \<exists>x. item (snd p) ''value'' = Inr (Num x)"
  shows "\<exists>t. sum_values ps acc = Inr t"
  using assms
proof (induction ps arbitrary: acc)
  case Nil
  then show ?case by simp
next
  case (Cons p ps)
  obtain symbol pos where p: "p = (symbol, pos)" by (cases p)
  from Cons.prems obtain x where "item pos ''value'' = Inr (Num x)" by (auto simp: p)
  then show ?case using Cons by (simp add: p)
qed

lemma heat_map_loop_total:
  assumes "\<forall>p \<in> set ps. \<exists>x. item (snd p) ''value'' = Inr (Num x)" and "t \<noteq> 0"
  shows "\<exists>m'. heat_map_loop t ps m = Inr m'"
  using assms
proof (induction ps arbitrary: m)
  case Nil
  then show ?case by simp
next
  case (Cons p ps)
  obtain symbol pos where p: "p = (symbol, pos)" by (cases p)
  from Cons.prems obtain x where "item pos ''value'' = Inr (Num x)" by (auto simp: p)
  then show ?case using Cons by (simp add: p py_div_def)
qed

lemma heat_map_total:
  assumes "\<forall>p \<in> set ps. \<exists>x. item (snd p) ''value'' = Inr (Num x)"
    and "ps = [] \<or> sum_values ps 0 \<noteq> Inr 0"
  shows "\<exists>hm. generate_portfolio_heat_map (Dict ps) = Inr hm"
proof (cases "ps = []")
  case True
  then show ?thesis by (simp add: generate_portfolio_heat_map_def)
next
  case False
  from sum_values_total [OF assms(1)] obtain t where t: "sum_values ps 0 = Inr t" ..
  then have "t \<noteq> 0" using assms(2) False by auto
  from heat_map_loop_total [OF assms(1) this] t show ?thesis
    by (simp add: generate_portfolio_heat_map_def)
qed

lemma item_Dict_key:
  assumes "k \<in> fst ` set d"
  shows "\<exists>v. item (Dict d) k = Inr v \<and> v \<in> snd ` set d"
proof -
  from assms obtain v where v: "map_of d k = Some v"
    by (cases "map_of d k") (auto simp: map_of_eq_None_iff)
  then have "(k, v) \<in> set d" by (rule map_of_SomeD)
  then have "v \<in> snd ` set d" by force
  then show ?thesis using v by simp
qed

lemma set_pairs: "(a, b) \<in> set (pairs xs) \<Longrightarrow> a \<in> set xs \<and> b \<in> set xs"
  by (induction xs) auto

lemma correlation_loop_total:
  assumes "\<forall>(a, b) \<in> set prs. a \<in> fst ` set rs \<and> b \<in> fst ` set rs"
    and "\<forall>a \<in> snd ` set rs. \<forall>b \<in> snd ` set rs. \<exists>c. cc a b = Inr c"
  shows "\<exists>res. correlation_loop rm cc (Dict rs) prs corrs high = Inr res"
  using assms(1)
proof (induction prs arbitrary: corrs high)
  case Nil
  then show ?case by simp
next
  case (Cons p prs)
  obtain a b where p: "p = (a, b)" by (cases p)
  from Cons.prems have ab: "a \<in> fst ` set rs" "b \<in> fst ` set rs" by (auto simp: p)
  from item_Dict_key [OF ab(1)] obtain r1 where
    r1: "item (Dict rs) a = Inr r1" "r1 \<in> snd ` set rs" by blast
  from item_Dict_key [OF ab(2)] obtain r2 where
    r2: "item (Dict rs) b = Inr r2" "r2 \<in> snd ` set rs" by blast
  from assms(2) r1(2) r2(2) obtain c where c: "cc r1 r2 = Inr c" by blast
  have "\<forall>(a, b) \<in> set prs. a \<in> fst ` set rs \<and> b \<in> fst ` set rs"
    using Cons.prems by simp
  from Cons.IH [OF this] show ?case
    unfolding p by (simp add: r1(1) r2(1) c del: item.simps)
qed

lemma correlation_risk_total:
  assumes "\<forall>a \<in> snd ` set rs. \<forall>b \<in> snd ` set rs. \<exists>c. cc a b = Inr c"
  shows "\<exists>cd. calculate_correlation_risk rm cc (Dict rs) = Inr cd"
proof -
  have "\<forall>(a, b) \<in> set (pairs (map fst rs)). a \<in> fst ` set rs \<and> b \<in> fst ` set rs"
    using set_pairs [of _ _ "map fst rs"] by auto
  from correlation_loop_total [OF this assms, of rm "[]" "[]"] obtain res where
    "correlation_loop rm cc (Dict rs) (pairs (map fst rs)) [] [] = Inr res" ..
  then show ?thesis
    by (cases res) (simp add: calculate_correlation_risk_def Let_def)
qed

lemma calculate_risk_score_total:
  assumes "item market_data ''prices'' = Inr (Arr prices)"
    and "item market_data ''volumes'' = Inr (Arr volumes)" and "volumes \<noteq> []"
    and "source_score sentiment_data ''news_sentiment'' = Inr news"
    and "source_score sentiment_data ''social_sentiment'' = Inr social"
    and "source_score sentiment_data ''technical_sentiment'' = Inr technical"
    and "item portfolio_data ''positions'' = Inr (Dict ps)"
    and "\<forall>p \<in> set ps. \<exists>x. item (snd p) ''value'' = Inr (Num x)"
    and "ps = [] \<or> sum_values ps 0 \<noteq> Inr 0"
    and "item portfolio_data ''returns'' = Inr (Dict rs)"
    and "\<forall>a \<in> snd ` set rs. \<forall>b \<in> snd ` set rs. \<exists>c. cc a b = Inr c"
  shows "\<exists>r. calculate_risk_score rm cc market_data sentiment_data portfolio_data = Inr r"
proof -
  from heat_map_total [OF assms(8,9)] obtain hm where
    hm: "generate_portfolio_heat_map (Dict ps) = Inr hm" ..
  from correlation_risk_total [OF assms(11)] obtain cd where
    cd: "calculate_correlation_risk rm cc (Dict rs) = Inr cd" ..
  show ?thesis
    unfolding calculate_risk_score_def
    by (simp add: assms(1-7,10) hm cd detect_market_regime_value adjust_risk_by_sentiment_def
        Let_def score_weights_def)
qed

text \<open>
  Claim C5. For every input whose three sentiment scores lie in \<open>[0, 1]\<close>, every
  result of \<open>calculate_risk_score\<close> has a score in \<open>[0, 100]\<close> (indeed in
  \<open>[18, 94]\<close>): the four components lie in \<open>[0, 100]\<close> and are combined with the
  weights 0.3, 0.2, 0.25 and 0.25, which sum to 1. The level is \<open>high\<close> below 40, \<open>medium\<close> from 40
  and below 70, \<open>low\<close> otherwise. A result is returned whenever the market data hold a
  price array and a non-empty volume array, every position has a numeric value, the
  portfolio is empty or its total exposure is not 0, and \<open>corrcoef\<close> returns on every
  pair of return series.
\<close>

theorem risk_score_in_range:
  assumes "source_score sentiment_data ''news_sentiment'' = Inr news" "0 \<le> news" "news \<le> 1"
    and "source_score sentiment_data ''social_sentiment'' = Inr social" "0 \<le> social" "social \<le> 1"
    and "source_score sentiment_data ''technical_sentiment'' = Inr technical"
      "0 \<le> technical" "technical \<le> 1"
  shows "sum_list (map snd score_weights) = 1
     \<and> (\<forall>r. calculate_risk_score rm cc market_data sentiment_data portfolio_data = Inr r \<longrightarrow>
        0 \<le> score r \<and> score r \<le> 100 \<and> 18 \<le> score r \<and> score r \<le> 94
        \<and> level r = (if score r < 40 then ''high'' else if score r < 70 then ''medium''
                      else ''low'')
        \<and> (\<exists>m s c k. components r = [(''market_regime'', m), (''sentiment'', s),
                                     (''concentration'', c), (''correlation'', k)]
             \<and> 0 \<le> m \<and> m \<le> 100 \<and> 0 \<le> s \<and> s \<le> 100 \<and> 0 \<le> c \<and> c \<le> 100 \<and> 0 \<le> k \<and> k \<le> 100
             \<and> score r = m * 0.3 + s * 0.2 + c * 0.25 + k * 0.25))
     \<and> (item market_data ''prices'' = Inr (Arr prices)
        \<and> item market_data ''volumes'' = Inr (Arr volumes) \<and> volumes \<noteq> []
        \<and> item portfolio_data ''positions'' = Inr (Dict ps)
        \<and> (\<forall>p \<in> set ps. \<exists>x. item (snd p) ''value'' = Inr (Num x))
        \<and> (ps = [] \<or> sum_values ps 0 \<noteq> Inr 0)
        \<and> item portfolio_data ''returns'' = Inr (Dict rs)
        \<and> (\<forall>a \<in> snd ` set rs. \<forall>b \<in> snd ` set rs. \<exists>c. cc a b = Inr c)
        \<longrightarrow> (\<exists>r. calculate_risk_score rm cc market_data sentiment_data portfolio_data = Inr r))"
proof (intro conjI allI impI)
  show "sum_list (map snd score_weights) = 1"
    by (simp add: score_weights_def)
next
  fix r
  assume "calculate_risk_score rm cc market_data sentiment_data portfolio_data = Inr r"
  from risk_score_bounds [OF assms this]
  show "0 \<le> score r" and "score r \<le> 100" and "18 \<le> score r" and "score r \<le> 94"
    and "level r = (if score r < 40 then ''high'' else if score r < 70 then ''medium''
                      else ''low'')"
    and "\<exists>m s c k. components r = [(''market_regime'', m), (''sentiment'', s),
                                     (''concentration'', c), (''correlation'', k)]
             \<and> 0 \<le> m \<and> m \<le> 100 \<and> 0 \<le> s \<and> s \<le> 100 \<and> 0 \<le> c \<and> c \<le> 100 \<and> 0 \<le> k \<and> k \<le> 100
             \<and> score r = m * 0.3 + s * 0.2 + c * 0.25 + k * 0.25"
    by blast+
next
  assume wf: "item market_data ''prices'' = Inr (Arr prices)
        \<and> item market_data ''volumes'' = Inr (Arr volumes) \<and> volumes \<noteq> []
        \<and> item portfolio_data ''positions'' = Inr (Dict ps)
        \<and> (\<forall>p \<in> set ps. \<exists>x. item (snd p) ''value'' = Inr (Num x))
        \<and> (ps = [] \<or> sum_values ps 0 \<noteq> Inr 0)
        \<and> item portfolio_data ''returns'' = Inr (Dict rs)
        \<and> (\<forall>a \<in> snd ` set rs. \<forall>b \<in> snd ` set rs. \<exists>c. cc a b = Inr c)"
  then show "\<exists>r. calculate_risk_score rm cc market_data sentiment_data portfolio_data = Inr r"
    by (intro calculate_risk_score_total [OF _ _ _ assms(1,4,7)]) blast+
qed

text \<open>
  Claim C5, at the example market and portfolio with all three sentiment scores 0.5:
  the score is 84 and the level \<open>low\<close>.
\<close>

theorem risk_score_in_range_witness:
  "source_score (example_sentiment 0.5) ''news_sentiment'' = Inr 0.5
   \<and> calculate_risk_score (RiskManager_init []) pearson example_market (example_sentiment 0.5)
        example_portfolio
      = Inr \<lparr> score = 84, level = ''low'',
           components = [(''market_regime'', 80), (''sentiment'', 50),
                         (''concentration'', 100), (''correlation'', 100)] \<rparr>
   \<and> (0::real) \<le> 84 \<and> (84::real) \<le> 100"
proof -
  have run: "calculate_risk_score (RiskManager_init []) pearson example_market
      (example_sentiment 0.5) example_portfolio
      = Inr \<lparr> score = 84, level = ''low'',
           components = [(''market_regime'', 80), (''sentiment'', 50),
                         (''concentration'', 100), (''correlation'', 100)] \<rparr>"
    by (simp add: example_risk_score0 level_of_def)
  have h: "(0::real) \<le> 0.5" "(0.5::real) \<le> 1" by simp_all
  show ?thesis
    using risk_score_in_range [OF example_source_scores(1) h example_source_scores(2) h
        example_source_scores(3) h, where rm = "RiskManager_init []" and cc = pearson
        and market_data = example_market and portfolio_data = example_portfolio
        and prices = "[100]" and volumes = "[1000]" and ps = "[]" and rs = "[]"] run
    by (simp add: example_source_scores)
qed

subsection \<open>Backtest\<close>

lemma backtest_period_step:
  assumes "backtest_period rm cc date data (capital, ts, adjs) = Inr (capital', ts', adjs')"
  shows "\<exists>t a. ts' = ts @ [t] \<and> adjs' = adjs @ [a] \<and> trade_capital t = capital'
           \<and> trade_position_size t = adj_adjusted_size a
           \<and> (score (trade_risk_score t) = 0 \<longrightarrow>
                capital' = capital \<and> trade_position_size t = 0 \<and> trade_pnl t = 0)"
  using assms
  by (auto simp: backtest_period_def and_then_eq_Inr_iff Let_def)

lemma backtest_loop_steps:
  assumes "backtest_loop rm cc hist (capital, ts, adjs) = Inr (capital', ts', adjs')"
  shows "\<exists>new. ts' = ts @ new \<and> length new = length hist
           \<and> ((\<forall>t \<in> set new. score (trade_risk_score t) = 0) \<longrightarrow>
                capital' = capital
                \<and> (\<forall>t \<in> set new. trade_position_size t = 0 \<and> trade_capital t = capital))"
  using assms
proof (induction hist arbitrary: capital ts adjs)
  case Nil
  then show ?case by simp
next
  case (Cons p hist)
  obtain date data where p: "p = (date, data)" by (cases p)
  from Cons.prems obtain c1 ts1 adjs1 where
    step: "backtest_period rm cc date data (capital, ts, adjs) = Inr (c1, ts1, adjs1)"
    and rest: "backtest_loop rm cc hist (c1, ts1, adjs1) = Inr (capital', ts', adjs')"
    unfolding p by (auto simp: and_then_eq_Inr_iff)
  from backtest_period_step [OF step] obtain t a where
    t: "ts1 = ts @ [t]" "trade_capital t = c1"
      "score (trade_risk_score t) = 0 \<longrightarrow> c1 = capital \<and> trade_position_size t = 0"
    by blast
  from Cons.IH [OF rest] obtain new where
    new: "ts' = ts1 @ new" "length new = length hist"
      "(\<forall>t \<in> set new. score (trade_risk_score t) = 0) \<longrightarrow>
         capital' = c1 \<and> (\<forall>t \<in> set new. trade_position_size t = 0 \<and> trade_capital t = c1)"
    by blast
  show ?case
  proof (intro exI [of _ "t # new"] conjI impI)
    show "ts' = ts @ t # new" using t(1) new(1) by simp
    show "length (t # new) = length (p # hist)" using new(2) by simp
  next
    assume z: "\<forall>t \<in> set (t # new). score (trade_risk_score t) = 0"
    then have "c1 = capital" "trade_position_size t = 0" using t(3) by simp_all
    moreover have "capital' = c1"
      "\<forall>t \<in> set new. trade_position_size t = 0 \<and> trade_capital t = c1"
      using new(3) z by simp_all
    ultimately show "capital' = capital"
      and "\<forall>t \<in> set (t # new). trade_position_size t = 0 \<and> trade_capital t = capital"
      using t(2) by simp_all
  qed
qed

lemma flat_capital_metrics:
  assumes "map trade_capital ts = [10000, 10000]"
  shows "calculate_max_drawdown ts = Inr 0"
    and "calculate_sharpe_ratio ts = Inr 0"
    and "calculate_risk_adjusted_return ts = Inr 0"
proof -
  show mdd: "calculate_max_drawdown ts = Inr 0"
    by (simp add: calculate_max_drawdown_def assms Let_def py_div_def)
  show "calculate_sharpe_ratio ts = Inr 0"
    by (simp add: calculate_sharpe_ratio_def assms Let_def py_div_def mean_def pstd_def)
  from assms obtain t1 t2 where ts: "ts = [t1, t2]"
    and c: "trade_capital t1 = 10000" "trade_capital t2 = 10000"
    by (auto simp: map_eq_Cons_conv)
  show "calculate_risk_adjusted_return ts = Inr 0"
    using mdd by (simp add: calculate_risk_adjusted_return_def ts c last_item_def py_div_def)
qed

text \<open>
  Claim C6 (scenario B). For every run of \<open>backtest_risk_strategy\<close> over two periods
  with initial capital 10000 in which every period's risk score is 0, there are two trade
  records, each with adjusted position size 0 and capital 10000, and the metrics are
  maximum drawdown 0, Sharpe ratio 0 and risk-adjusted return 0.
\<close>

theorem zero_risk_score_backtest_is_flat:
  assumes "backtest_risk_strategy rm cc historical_data strategy_params = Inr res"
    and "length historical_data = 2"
    and "dict_get strategy_params ''initial_capital'' 10000 = 10000"
    and "\<forall>t \<in> set (trades res). score (trade_risk_score t) = 0"
  shows "length (trades res) = 2
     \<and> (\<forall>t \<in> set (trades res). trade_position_size t = 0 \<and> trade_capital t = 10000)
     \<and> final_capital (metrics res) = 10000
     \<and> max_drawdown (metrics res) = 0
     \<and> sharpe_ratio (metrics res) = 0
     \<and> risk_adjusted_return (metrics res) = 0"
proof -
  from assms(1,3) obtain capital ts adjs mdd sharpe rar where
    loop: "backtest_loop rm cc historical_data (10000, [], []) = Inr (capital, ts, adjs)"
    and m: "calculate_max_drawdown ts = Inr mdd" "calculate_sharpe_ratio ts = Inr sharpe"
      "calculate_risk_adjusted_return ts = Inr rar"
    and res: "trades res = ts" "final_capital (metrics res) = capital"
      "max_drawdown (metrics res) = mdd" "sharpe_ratio (metrics res) = sharpe"
      "risk_adjusted_return (metrics res) = rar"
    by (auto simp: backtest_risk_strategy_def Let_def and_then_eq_Inr_iff)
  from backtest_loop_steps [OF loop] assms(2,4) res(1)
  have len: "length ts = 2" and cap: "capital = 10000"
    and flat: "\<forall>t \<in> set ts. trade_position_size t = 0 \<and> trade_capital t = 10000"
    by auto
  from len obtain t1 t2 where "ts = [t1, t2]"
    by (auto simp: length_Suc_conv numeral_2_eq_2)
  then have "map trade_capital ts = [10000, 10000]" using flat by simp
  from flat_capital_metrics [OF this] m have "mdd = 0" "sharpe = 0" "rar = 0" by simp_all
  then show ?thesis using res len cap flat by simp
qed

lemma example_period_step:
  "backtest_period (RiskManager_init []) pearson d (example_period (- 3.7)) (10000, ts, adjs) =
     Inr (10000,
          ts @ [\<lparr> trade_date = d,
                   trade_risk_score = \<lparr> score = 0, level = ''high'',
                     components = [(''market_regime'', 80), (''sentiment'', - 370),
                                   (''concentration'', 100), (''correlation'', 100)] \<rparr>,
                   trade_position_size = 0, trade_pnl = 0, trade_capital = 10000 \<rparr>],
          adjs @ [\<lparr> adj_date = d, adj_original_size = 40, adj_adjusted_size = 0,
                     adj_risk_score = \<lparr> score = 0, level = ''high'',
                       components = [(''market_regime'', 80), (''sentiment'', - 370),
                                     (''concentration'', 100), (''correlation'', 100)] \<rparr> \<rparr>])"
  by (simp add: backtest_period_def example_period_def example_risk_score0 level_of_def
      calculate_position_size_def RiskManager_init_def dict_get_def py_div_def Let_def)

lemma example_backtest_loop:
  "\<exists>adjs. backtest_loop (RiskManager_init []) pearson
     [(''2024-01-01'', example_period (- 3.7)), (''2024-01-02'', example_period (- 3.7))]
     (10000, [], []) =
     Inr (10000, [example_flat_trade ''2024-01-01'', example_flat_trade ''2024-01-02''], adjs)"
  by (simp add: example_period_step example_flat_trade_def)

lemma example_backtest:
  "\<exists>adjs. backtest_risk_strategy (RiskManager_init []) pearson
     [(''2024-01-01'', example_period (- 3.7)), (''2024-01-02'', example_period (- 3.7))] [] =
     Inr \<lparr> trades = [example_flat_trade ''2024-01-01'', example_flat_trade ''2024-01-02''],
           metrics = \<lparr> final_capital = 10000, total_return = 0, max_drawdown = 0,
                       sharpe_ratio = 0, risk_adjusted_return = 0 \<rparr>,
           risk_adjustments = adjs \<rparr>"
proof -
  from example_backtest_loop obtain adjs where
    l: "backtest_loop (RiskManager_init []) pearson
     [(''2024-01-01'', example_period (- 3.7)), (''2024-01-02'', example_period (- 3.7))]
     (10000, [], []) =
     Inr (10000, [example_flat_trade ''2024-01-01'', example_flat_trade ''2024-01-02''], adjs)" ..
  have c: "map trade_capital [example_flat_trade ''2024-01-01'', example_flat_trade ''2024-01-02'']
      = [10000, 10000]"
    by (simp add: example_flat_trade_def)
  show ?thesis
    by (rule exI [of _ adjs])
      (simp add: backtest_risk_strategy_def dict_get_def l flat_capital_metrics [OF c] py_div_def
        del: backtest_loop.simps)
qed

text \<open>
  Claim C6, at two periods whose sentiment scores are -3.7: the components are 80, -370,
  100 and 100 and the risk score is 0. (With sentiment scores in \<open>[0, 1]\<close> the score is
  at least 18, by \<open>risk_score_bounds\<close>.)
\<close>

theorem zero_risk_score_backtest_is_flat_witness:
  "\<exists>res. backtest_risk_strategy (RiskManager_init []) pearson
     [(''2024-01-01'', example_period (- 3.7)), (''2024-01-02'', example_period (- 3.7))] [] = Inr res
     \<and> map (\<lambda>t. score (trade_risk_score t)) (trades res) = [0, 0]
     \<and> map trade_position_size (trades res) = [0, 0]
     \<and> map trade_capital (trades res) = [10000, 10000]
     \<and> max_drawdown (metrics res) = 0 \<and> sharpe_ratio (metrics res) = 0
     \<and> risk_adjusted_return (metrics res) = 0"
proof -
  from example_backtest obtain adjs where
    run: "backtest_risk_strategy (RiskManager_init []) pearson
     [(''2024-01-01'', example_period (- 3.7)), (''2024-01-02'', example_period (- 3.7))] [] =
     Inr \<lparr> trades = [example_flat_trade ''2024-01-01'', example_flat_trade ''2024-01-02''],
           metrics = \<lparr> final_capital = 10000, total_return = 0, max_drawdown = 0,
                       sharpe_ratio = 0, risk_adjusted_return = 0 \<rparr>,
           risk_adjustments = adjs \<rparr>" ..
  have len: "length [(''2024-01-01'', example_period (- 3.7)), (''2024-01-02'', example_period (- 3.7))] = 2"
    by simp
  have cap: "dict_get ([]::(string \<times> real) list) ''initial_capital'' 10000 = 10000"
    by (simp add: dict_get_def)
  have z: "\<forall>t \<in> set (trades \<lparr> trades = [example_flat_trade ''2024-01-01'', example_flat_trade ''2024-01-02''],
           metrics = \<lparr> final_capital = 10000, total_return = 0, max_drawdown = 0,
                       sharpe_ratio = 0, risk_adjusted_return = 0 \<rparr>,
           risk_adjustments = adjs \<rparr>). score (trade_risk_score t) = 0"
    by (simp add: example_flat_trade_def)
  from zero_risk_score_backtest_is_flat [OF run len cap z] run
  show ?thesis by (simp add: example_flat_trade_def)
qed

end
